theory Spec2Isabelle
  imports Main
begin

section \<open>Beacon state routes: route table, request serializers, return types\<close>

text \<open>
  A shallow embedding of \<^verbatim>\<open>packages/api/src/beacon/routes/beacon/state.ts\<close>: the table
  \<^verbatim>\<open>routesData\<close>, the request serializers of \<^verbatim>\<open>getReqSerializers\<close> (one
  \<^verbatim>\<open>writeReq\<close>/\<^verbatim>\<open>parseReq\<close> pair and one \<^verbatim>\<open>schema\<close> per operation) and the table of
  \<^verbatim>\<open>getReturnTypes\<close>.

  Conventions of the embedding.
  \<^item> A TypeScript \<^verbatim>\<open>number\<close> that carries a \<^verbatim>\<open>Slot\<close>, \<^verbatim>\<open>Epoch\<close>, \<^verbatim>\<open>CommitteeIndex\<close> or
    \<^verbatim>\<open>ValidatorIndex\<close> is a \<^typ>\<open>nat\<close>: these are the protocol's unsigned integers. Negative
    and fractional numbers are outside the model, and no arithmetic of doubles is modelled:
    where the code renders a number as text, the model gives the digits only up to
    \<^verbatim>\<open>Number.MAX_SAFE_INTEGER\<close>.
  \<^item> An optional property or argument (\<^verbatim>\<open>x?: T\<close>) is a \<^typ>\<open>'a option\<close>, \<^verbatim>\<open>undefined\<close> being
    \<^const>\<open>None\<close>. An object all of whose properties are optional is a record of options, so
    the empty object \<^verbatim>\<open>{}\<close> and an object whose properties are all \<^verbatim>\<open>undefined\<close> are the same
    value of the model.
  \<^item> A function that can throw returns \<open>Error + 'a\<close>, \<^const>\<open>Inl\<close> being the exception.
\<close>

subsection \<open>Errors and JavaScript primitives\<close>

datatype Error = MalformedIdentifier | MalformedNumber | SchemaViolation | UnknownOperation

text \<open>\<^verbatim>\<open>s.startsWith(p)\<close>.\<close>

definition startsWith :: "string \<Rightarrow> string \<Rightarrow> bool" where
  "startsWith s p = (take (length p) s = p)"

definition digit_char :: "nat \<Rightarrow> char" where
  "digit_char d = char_of (48 + d)"

text \<open>The decimal digits of a non-negative integer, most significant digit first.\<close>

fun decimal :: "nat \<Rightarrow> string" where
  "decimal n = (if n < 10 then [digit_char n] else decimal (n div 10) @ [digit_char (n mod 10)])"

declare decimal.simps [simp del]

text \<open>\<^verbatim>\<open>Array.prototype.map\<close> with a callback that may throw: the first exception, left to right, ends
  the call.\<close>

fun map_throwing :: "('a \<Rightarrow> 'e + 'b) \<Rightarrow> 'a list \<Rightarrow> 'e + 'b list" where
  "map_throwing f [] = Inr []"
| "map_throwing f (x # xs) =
     (case f x of
        Inl e \<Rightarrow> Inl e
      | Inr y \<Rightarrow> (case map_throwing f xs of Inl e \<Rightarrow> Inl e | Inr ys \<Rightarrow> Inr (y # ys)))"

subsection \<open>The large-integer wire codec\<close>

definition is_digit :: "char \<Rightarrow> bool" where
  "is_digit c = (48 \<le> (of_char c :: nat) \<and> (of_char c :: nat) \<le> 57)"

definition digit_value :: "char \<Rightarrow> nat" where
  "digit_value c = of_char c - 48"

definition decimal_value :: "string \<Rightarrow> nat" where
  "decimal_value s = foldl (\<lambda>acc c. 10 * acc + digit_value c) 0 s"

text \<open>A leading zero other than the literal \<^verbatim>\<open>"0"\<close>: a \<^verbatim>\<open>0\<close> followed by at least one more
  character.\<close>

definition has_leading_zero :: "string \<Rightarrow> bool" where
  "has_leading_zero s = (case s of c # _ # _ \<Rightarrow> c = CHR ''0'' | _ \<Rightarrow> False)"

text \<open>
  Modelled from the spec: \<^verbatim>\<open>toU64Str\<close> of \<^verbatim>\<open>utils/serdes.js\<close>, which \<^verbatim>\<open>state.ts\<close> imports
  without its source. The spec (4.4) calls it \<^verbatim>\<open>toDecimalString\<close>:
  the canonical decimal rendering of an unsigned 64-bit integer, with no leading zeros and no
  sign.
\<close>

definition toU64Str :: "nat \<Rightarrow> string" where
  "toU64Str u64 = decimal u64"

text \<open>
  Modelled from the spec: \<^verbatim>\<open>fromU64Str\<close> of \<^verbatim>\<open>utils/serdes.js\<close>, missing like \<^verbatim>\<open>toU64Str\<close>. The
  spec (4.4) calls it \<^verbatim>\<open>fromDecimalString\<close>: the inverse, which fails with a MalformedNumber
  condition on non-digit characters, on a leading zero other than the literal \<^verbatim>\<open>"0"\<close>, or on a
  value exceeding \<open>2\<^sup>6\<^sup>4 - 1\<close>. The spec names these three conditions and no other, so the empty
  string, which meets none of them, is read as the empty sum \<open>0\<close>.
\<close>

definition fromU64Str :: "string \<Rightarrow> Error + nat" where
  "fromU64Str s =
     (if \<not> list_all is_digit s then Inl MalformedNumber
      else if has_leading_zero s then Inl MalformedNumber
      else if decimal_value s > 2 ^ 64 - 1 then Inl MalformedNumber
      else Inr (decimal_value s))"

subsection \<open>Domain types\<close>

text \<open>
  \<^verbatim>\<open>type StateId = RootHex | Slot | "head" | "genesis" | "finalized" | "justified"\<close>: a
  \<^verbatim>\<open>RootHex\<close> and the four aliases are strings, a \<^verbatim>\<open>Slot\<close> is a number.
  \<^verbatim>\<open>type ValidatorId = string | number\<close>.
\<close>

datatype StateId = SidStr string | SidNum nat

datatype ValidatorId = VidStr string | VidNum nat

datatype ValidatorStatus =
    active
  | pending_initialized
  | pending_queued
  | active_ongoing
  | active_exiting
  | active_slashed
  | exited_unslashed
  | exited_slashed
  | withdrawal_possible
  | withdrawal_done

text \<open>The property \<^verbatim>\<open>id\<close> of \<^verbatim>\<open>ValidatorFilters\<close> is \<open>id_filter\<close> here, and \<^verbatim>\<open>status\<close> is
  \<open>status_filter\<close>.\<close>

record ValidatorFilters =
  id_filter :: "ValidatorId list option"
  status_filter :: "ValidatorStatus list option"

record CommitteesFilters =
  epoch :: "nat option"
  index :: "nat option"
  slot :: "nat option"

text \<open>
  \<^verbatim>\<open>Number.MAX_SAFE_INTEGER\<close>, the largest \<open>n\<close> such that a \<^verbatim>\<open>number\<close> holds \<open>n\<close> and \<open>n + 1\<close>
  exactly.
\<close>

definition MAX_SAFE_INTEGER :: nat where
  "MAX_SAFE_INTEGER = 2 ^ 53 - 1"

text \<open>
  \<^verbatim>\<open>String(state_id)\<close>. A string is returned as it is. A \<^verbatim>\<open>number\<close> is a double: up to
  \<^verbatim>\<open>Number.MAX_SAFE_INTEGER\<close> the result is the decimal digits of the integer; beyond it the
  result is the shortest digits that read back as the same double, padded with zeros or in
  exponent notation (\<^verbatim>\<open>String(2 ** 63)\<close> is \<^verbatim>\<open>"9223372036854776000"\<close>, \<^verbatim>\<open>String(1e21)\<close> is
  \<^verbatim>\<open>"1e+21"\<close>). That rendering is floating-point arithmetic, which the model does not compute: it
  is the parameter \<open>inexact\<close>, and nothing is proved of it.
\<close>

fun String_of :: "(nat \<Rightarrow> string) \<Rightarrow> StateId \<Rightarrow> string" where
  "String_of inexact (SidStr s) = s"
| "String_of inexact (SidNum n) = (if n \<le> MAX_SAFE_INTEGER then decimal n else inexact n)"

subsection \<open>Wire requests\<close>

text \<open>
  A wire request is \<^verbatim>\<open>{params, query, body}\<close>; a part that a request type of \<^verbatim>\<open>ReqTypes\<close> does
  not have is \<^typ>\<open>unit\<close>.
\<close>

record ('p, 'q, 'b) Req =
  params :: 'p
  query :: 'q
  body :: 'b

record 's StateIdParams =
  state_id :: 's

record ValidatorParams = "StateId StateIdParams" +
  validator_id :: ValidatorId

text \<open>The query \<^verbatim>\<open>{epoch?: number}\<close> of \<^verbatim>\<open>getEpochSyncCommittees\<close> and \<^verbatim>\<open>getStateRandao\<close>.\<close>

record EpochQuery =
  epoch_q :: "nat option"

text \<open>The query \<^verbatim>\<open>{id?: ValidatorId[]}\<close> of \<^verbatim>\<open>getStateValidatorBalances\<close>.\<close>

record IdQuery =
  id_q :: "ValidatorId list option"

text \<open>The body \<^verbatim>\<open>{ids?: string[]; statuses?: ValidatorStatus[]}\<close> of \<^verbatim>\<open>postStateValidators\<close>.\<close>

record ValidatorsBody =
  ids :: "string list option"
  statuses :: "ValidatorStatus list option"

type_synonym StateIdOnlyReq = "(string StateIdParams, unit, unit) Req"

subsection \<open>Request serializers\<close>

text \<open>The first argument of \<^verbatim>\<open>stateIdOnlyReq.writeReq\<close> here is the parameter \<open>inexact\<close> of
  \<open>String_of\<close>.\<close>

definition stateIdOnlyReq_writeReq :: "(nat \<Rightarrow> string) \<Rightarrow> StateId \<Rightarrow> StateIdOnlyReq" where
  "stateIdOnlyReq_writeReq inexact sid =
     \<lparr>params = \<lparr>state_id = String_of inexact sid\<rparr>, query = (), body = ()\<rparr>"

definition stateIdOnlyReq_parseReq :: "StateIdOnlyReq \<Rightarrow> Error + StateId" where
  "stateIdOnlyReq_parseReq r = Inr (SidStr (state_id (params r)))"

text \<open>\<^verbatim>\<open>getStateFinalityCheckpoints: stateIdOnlyReq\<close>, \<^verbatim>\<open>getStateFork: stateIdOnlyReq\<close> and
  \<^verbatim>\<open>getStateRoot: stateIdOnlyReq\<close>.\<close>

definition getStateFinalityCheckpoints_writeReq ::
  "(nat \<Rightarrow> string) \<Rightarrow> StateId \<Rightarrow> StateIdOnlyReq"
where
  "getStateFinalityCheckpoints_writeReq = stateIdOnlyReq_writeReq"

definition getStateFinalityCheckpoints_parseReq :: "StateIdOnlyReq \<Rightarrow> Error + StateId" where
  "getStateFinalityCheckpoints_parseReq = stateIdOnlyReq_parseReq"

definition getStateFork_writeReq ::
  "(nat \<Rightarrow> string) \<Rightarrow> StateId \<Rightarrow> StateIdOnlyReq"
where
  "getStateFork_writeReq = stateIdOnlyReq_writeReq"

definition getStateFork_parseReq :: "StateIdOnlyReq \<Rightarrow> Error + StateId" where
  "getStateFork_parseReq = stateIdOnlyReq_parseReq"

definition getStateRoot_writeReq ::
  "(nat \<Rightarrow> string) \<Rightarrow> StateId \<Rightarrow> StateIdOnlyReq"
where
  "getStateRoot_writeReq = stateIdOnlyReq_writeReq"

definition getStateRoot_parseReq :: "StateIdOnlyReq \<Rightarrow> Error + StateId" where
  "getStateRoot_parseReq = stateIdOnlyReq_parseReq"

text \<open>\<^verbatim>\<open>query: filters || {}\<close>: an object is truthy, so only \<^verbatim>\<open>undefined\<close> gives \<^verbatim>\<open>{}\<close>.\<close>

definition getEpochCommittees_writeReq ::
  "StateId \<Rightarrow> CommitteesFilters option \<Rightarrow> (StateId StateIdParams, CommitteesFilters, unit) Req"
where
  "getEpochCommittees_writeReq sid filters =
     \<lparr>params = \<lparr>state_id = sid\<rparr>,
      query = (case filters of
                 Some f \<Rightarrow> f
               | None \<Rightarrow> \<lparr>epoch = None, index = None, slot = None\<rparr>),
      body = ()\<rparr>"

definition getEpochCommittees_parseReq ::
  "(StateId StateIdParams, CommitteesFilters, unit) Req
     \<Rightarrow> Error + StateId \<times> CommitteesFilters option"
where
  "getEpochCommittees_parseReq r = Inr (state_id (params r), Some (query r))"

definition getEpochSyncCommittees_writeReq ::
  "StateId \<Rightarrow> nat option \<Rightarrow> (StateId StateIdParams, EpochQuery, unit) Req"
where
  "getEpochSyncCommittees_writeReq sid ep =
     \<lparr>params = \<lparr>state_id = sid\<rparr>, query = \<lparr>epoch_q = ep\<rparr>, body = ()\<rparr>"

definition getEpochSyncCommittees_parseReq ::
  "(StateId StateIdParams, EpochQuery, unit) Req \<Rightarrow> Error + StateId \<times> nat option"
where
  "getEpochSyncCommittees_parseReq r = Inr (state_id (params r), epoch_q (query r))"

definition getStateRandao_writeReq ::
  "StateId \<Rightarrow> nat option \<Rightarrow> (StateId StateIdParams, EpochQuery, unit) Req"
where
  "getStateRandao_writeReq sid ep =
     \<lparr>params = \<lparr>state_id = sid\<rparr>, query = \<lparr>epoch_q = ep\<rparr>, body = ()\<rparr>"

definition getStateRandao_parseReq ::
  "(StateId StateIdParams, EpochQuery, unit) Req \<Rightarrow> Error + StateId \<times> nat option"
where
  "getStateRandao_parseReq r = Inr (state_id (params r), epoch_q (query r))"

definition getStateValidator_writeReq ::
  "StateId \<Rightarrow> ValidatorId \<Rightarrow> (ValidatorParams, unit, unit) Req"
where
  "getStateValidator_writeReq sid vid =
     \<lparr>params = \<lparr>state_id = sid, validator_id = vid\<rparr>, query = (), body = ()\<rparr>"

definition getStateValidator_parseReq ::
  "(ValidatorParams, unit, unit) Req \<Rightarrow> Error + StateId \<times> ValidatorId"
where
  "getStateValidator_parseReq r = Inr (state_id (params r), validator_id (params r))"

definition getStateValidators_writeReq ::
  "StateId \<Rightarrow> ValidatorFilters option \<Rightarrow> (StateId StateIdParams, ValidatorFilters, unit) Req"
where
  "getStateValidators_writeReq sid filters =
     \<lparr>params = \<lparr>state_id = sid\<rparr>,
      query = (case filters of
                 Some f \<Rightarrow> f
               | None \<Rightarrow> \<lparr>id_filter = None, status_filter = None\<rparr>),
      body = ()\<rparr>"

definition getStateValidators_parseReq ::
  "(StateId StateIdParams, ValidatorFilters, unit) Req
     \<Rightarrow> Error + StateId \<times> ValidatorFilters option"
where
  "getStateValidators_parseReq r = Inr (state_id (params r), Some (query r))"

text \<open>
  The two callbacks that the POST serializers map over an id list:
  \<^verbatim>\<open>(id) => (typeof id === "string" ? id : toU64Str(id))\<close> when writing and
  \<^verbatim>\<open>(id) => (typeof id === "string" && id.startsWith("0x") ? id : fromU64Str(id))\<close> when
  parsing. The parsed lists are \<^verbatim>\<open>string[]\<close>, so \<^verbatim>\<open>typeof id === "string"\<close> holds there.
\<close>

fun writeReq_id :: "ValidatorId \<Rightarrow> string" where
  "writeReq_id (VidStr s) = s"
| "writeReq_id (VidNum n) = toU64Str n"

definition parseReq_id :: "string \<Rightarrow> Error + ValidatorId" where
  "parseReq_id i =
     (if startsWith i ''0x'' then Inr (VidStr i)
      else (case fromU64Str i of Inl e \<Rightarrow> Inl e | Inr n \<Rightarrow> Inr (VidNum n)))"

text \<open>\<^verbatim>\<open>ids: filters?.id?.map(...)\<close> and \<^verbatim>\<open>statuses: filters?.status\<close>.\<close>

definition postStateValidators_writeReq ::
  "StateId \<Rightarrow> ValidatorFilters option \<Rightarrow> (StateId StateIdParams, unit, ValidatorsBody) Req"
where
  "postStateValidators_writeReq sid filters =
     \<lparr>params = \<lparr>state_id = sid\<rparr>,
      query = (),
      body = \<lparr>ids = (case filters of
                       None \<Rightarrow> None
                     | Some f \<Rightarrow> (case id_filter f of
                                   None \<Rightarrow> None
                                 | Some xs \<Rightarrow> Some (map writeReq_id xs))),
               statuses = (case filters of None \<Rightarrow> None | Some f \<Rightarrow> status_filter f)\<rparr>\<rparr>"

definition postStateValidators_parseReq ::
  "(StateId StateIdParams, unit, ValidatorsBody) Req
     \<Rightarrow> Error + StateId \<times> ValidatorFilters option"
where
  "postStateValidators_parseReq r =
     (case ids (body r) of
        None \<Rightarrow>
          Inr (state_id (params r),
               Some \<lparr>id_filter = None, status_filter = statuses (body r)\<rparr>)
      | Some xs \<Rightarrow>
          (case map_throwing parseReq_id xs of
             Inl e \<Rightarrow> Inl e
           | Inr ys \<Rightarrow>
               Inr (state_id (params r),
                    Some \<lparr>id_filter = Some ys, status_filter = statuses (body r)\<rparr>)))"

definition getStateValidatorBalances_writeReq ::
  "StateId \<Rightarrow> ValidatorId list option \<Rightarrow> (StateId StateIdParams, IdQuery, unit) Req"
where
  "getStateValidatorBalances_writeReq sid i =
     \<lparr>params = \<lparr>state_id = sid\<rparr>, query = \<lparr>id_q = i\<rparr>, body = ()\<rparr>"

definition getStateValidatorBalances_parseReq ::
  "(StateId StateIdParams, IdQuery, unit) Req \<Rightarrow> Error + StateId \<times> ValidatorId list option"
where
  "getStateValidatorBalances_parseReq r = Inr (state_id (params r), id_q (query r))"

text \<open>\<^verbatim>\<open>body: ids?.map(...) || []\<close>: an array is truthy, so only \<^verbatim>\<open>undefined\<close> gives \<^verbatim>\<open>[]\<close>. The
  request type has \<^verbatim>\<open>body?: string[]\<close>, and \<^verbatim>\<open>parseReq\<close> maps over \<^verbatim>\<open>body?\<close>.\<close>

definition postStateValidatorBalances_writeReq ::
  "StateId \<Rightarrow> ValidatorId list option \<Rightarrow> (StateId StateIdParams, unit, string list option) Req"
where
  "postStateValidatorBalances_writeReq sid vids =
     \<lparr>params = \<lparr>state_id = sid\<rparr>,
      query = (),
      body = Some (case vids of None \<Rightarrow> [] | Some xs \<Rightarrow> map writeReq_id xs)\<rparr>"

definition postStateValidatorBalances_parseReq ::
  "(StateId StateIdParams, unit, string list option) Req
     \<Rightarrow> Error + StateId \<times> ValidatorId list option"
where
  "postStateValidatorBalances_parseReq r =
     (case body r of
        None \<Rightarrow> Inr (state_id (params r), None)
      | Some xs \<Rightarrow>
          (case map_throwing parseReq_id xs of
             Inl e \<Rightarrow> Inl e
           | Inr ys \<Rightarrow> Inr (state_id (params r), Some ys)))"

subsection \<open>The route table\<close>

text \<open>The methods of the type \<^verbatim>\<open>Api\<close>, in the order of their declaration.\<close>

definition Api :: "string list" where
  "Api =
     [''getStateRoot'', ''getStateFork'', ''getStateRandao'', ''getStateFinalityCheckpoints'',
      ''getStateValidators'', ''postStateValidators'', ''getStateValidator'',
      ''getStateValidatorBalances'', ''postStateValidatorBalances'', ''getEpochCommittees'',
      ''getEpochSyncCommittees'']"

record RouteDef =
  url :: string
  "method" :: string

text \<open>An object literal is the list of its properties, key first.\<close>

definition routesData :: "(string \<times> RouteDef) list" where
  "routesData =
     [(''getEpochCommittees'',
         \<lparr>url = ''/eth/v1/beacon/states/{state_id}/committees'', method = ''GET''\<rparr>),
      (''getEpochSyncCommittees'',
         \<lparr>url = ''/eth/v1/beacon/states/{state_id}/sync_committees'', method = ''GET''\<rparr>),
      (''getStateFinalityCheckpoints'',
         \<lparr>url = ''/eth/v1/beacon/states/{state_id}/finality_checkpoints'', method = ''GET''\<rparr>),
      (''getStateFork'',
         \<lparr>url = ''/eth/v1/beacon/states/{state_id}/fork'', method = ''GET''\<rparr>),
      (''getStateRoot'',
         \<lparr>url = ''/eth/v1/beacon/states/{state_id}/root'', method = ''GET''\<rparr>),
      (''getStateRandao'',
         \<lparr>url = ''/eth/v1/beacon/states/{state_id}/randao'', method = ''GET''\<rparr>),
      (''getStateValidator'',
         \<lparr>url = ''/eth/v1/beacon/states/{state_id}/validators/{validator_id}'',
          method = ''GET''\<rparr>),
      (''getStateValidators'',
         \<lparr>url = ''/eth/v1/beacon/states/{state_id}/validators'', method = ''GET''\<rparr>),
      (''postStateValidators'',
         \<lparr>url = ''/eth/v1/beacon/states/{state_id}/validators'', method = ''POST''\<rparr>),
      (''getStateValidatorBalances'',
         \<lparr>url = ''/eth/v1/beacon/states/{state_id}/validator_balances'', method = ''GET''\<rparr>),
      (''postStateValidatorBalances'',
         \<lparr>url = ''/eth/v1/beacon/states/{state_id}/validator_balances'', method = ''POST''\<rparr>)]"

subsection \<open>The table of request serializers\<close>

text \<open>The members of \<^verbatim>\<open>Schema\<close> that the file uses.\<close>

datatype Schema = StringRequired | Uint | UintOrStringArray | StringArray | Object

record ReqSchema =
  params_schema :: "(string \<times> Schema) list"
  query_schema :: "(string \<times> Schema) list"
  body_schema :: "Schema option"

definition stateIdOnlyReq_schema :: ReqSchema where
  "stateIdOnlyReq_schema =
     \<lparr>params_schema = [(''state_id'', StringRequired)], query_schema = [], body_schema = None\<rparr>"

text \<open>
  The object that \<^verbatim>\<open>getReqSerializers\<close> returns, each serializer given by its \<^verbatim>\<open>schema\<close>. The
  \<^verbatim>\<open>writeReq\<close> and \<^verbatim>\<open>parseReq\<close> of the key \<open>k\<close> are the functions \<open>k_writeReq\<close> and
  \<open>k_parseReq\<close> above, those of \<^verbatim>\<open>stateIdOnlyReq\<close> for the three keys bound to it.
\<close>

definition getReqSerializers :: "(string \<times> ReqSchema) list" where
  "getReqSerializers =
     [(''getEpochCommittees'',
         \<lparr>params_schema = [(''state_id'', StringRequired)],
          query_schema = [(''slot'', Uint), (''epoch'', Uint), (''index'', Uint)],
          body_schema = None\<rparr>),
      (''getEpochSyncCommittees'',
         \<lparr>params_schema = [(''state_id'', StringRequired)],
          query_schema = [(''epoch'', Uint)],
          body_schema = None\<rparr>),
      (''getStateFinalityCheckpoints'', stateIdOnlyReq_schema),
      (''getStateFork'', stateIdOnlyReq_schema),
      (''getStateRoot'', stateIdOnlyReq_schema),
      (''getStateRandao'',
         \<lparr>params_schema = [(''state_id'', StringRequired)],
          query_schema = [(''epoch'', Uint)],
          body_schema = None\<rparr>),
      (''getStateValidator'',
         \<lparr>params_schema = [(''state_id'', StringRequired), (''validator_id'', StringRequired)],
          query_schema = [],
          body_schema = None\<rparr>),
      (''getStateValidators'',
         \<lparr>params_schema = [(''state_id'', StringRequired)],
          query_schema = [(''id'', UintOrStringArray), (''status'', StringArray)],
          body_schema = None\<rparr>),
      (''postStateValidators'',
         \<lparr>params_schema = [(''state_id'', StringRequired)],
          query_schema = [],
          body_schema = Some Object\<rparr>),
      (''getStateValidatorBalances'',
         \<lparr>params_schema = [(''state_id'', StringRequired)],
          query_schema = [(''id'', UintOrStringArray)],
          body_schema = None\<rparr>),
      (''postStateValidatorBalances'',
         \<lparr>params_schema = [(''state_id'', StringRequired)],
          query_schema = [],
          body_schema = Some UintOrStringArray\<rparr>)]"

subsection \<open>The table of return types\<close>

text \<open>
  The type expressions of \<^verbatim>\<open>getReturnTypes\<close>: a type of the \<^verbatim>\<open>ssz\<close> namespace by its name, a
  \<^verbatim>\<open>new StringType()\<close>, a \<^verbatim>\<open>new ContainerType(fields, opts)\<close> with its \<^verbatim>\<open>jsonCase\<close> option, and the
  combinators \<^verbatim>\<open>ArrayOf\<close>, \<^verbatim>\<open>ContainerDataExecutionOptimistic\<close> and \<^verbatim>\<open>WithFinalized\<close>.
\<close>

datatype TypeExpr =
    ssz string
  | StringType
  | ContainerType "(string \<times> TypeExpr) list" "string option"
  | ArrayOf TypeExpr
  | ContainerDataExecutionOptimistic TypeExpr
  | WithFinalized TypeExpr

definition RootContainer :: TypeExpr where
  "RootContainer = ContainerType [(''root'', ssz ''Root'')] None"

definition RandaoContainer :: TypeExpr where
  "RandaoContainer = ContainerType [(''randao'', ssz ''Root'')] None"

definition FinalityCheckpoints :: TypeExpr where
  "FinalityCheckpoints =
     ContainerType
       [(''previousJustified'', ssz ''phase0.Checkpoint''),
        (''currentJustified'', ssz ''phase0.Checkpoint''),
        (''finalized'', ssz ''phase0.Checkpoint'')]
       (Some ''eth2'')"

definition ValidatorResponse :: TypeExpr where
  "ValidatorResponse =
     ContainerType
       [(''index'', ssz ''ValidatorIndex''),
        (''balance'', ssz ''UintNum64''),
        (''status'', StringType),
        (''validator'', ssz ''phase0.Validator'')]
       (Some ''eth2'')"

definition ValidatorBalance :: TypeExpr where
  "ValidatorBalance =
     ContainerType
       [(''index'', ssz ''ValidatorIndex''), (''balance'', ssz ''UintNum64'')]
       (Some ''eth2'')"

definition EpochCommitteeResponse :: TypeExpr where
  "EpochCommitteeResponse =
     ContainerType
       [(''index'', ssz ''CommitteeIndex''),
        (''slot'', ssz ''Slot''),
        (''validators'', ssz ''phase0.CommitteeIndices'')]
       (Some ''eth2'')"

definition EpochSyncCommitteesResponse :: TypeExpr where
  "EpochSyncCommitteesResponse =
     ContainerType
       [(''validators'', ArrayOf (ssz ''ValidatorIndex'')),
        (''validatorAggregates'', ArrayOf (ArrayOf (ssz ''ValidatorIndex'')))]
       (Some ''eth2'')"

definition getReturnTypes :: "(string \<times> TypeExpr) list" where
  "getReturnTypes =
     [(''getStateRoot'', WithFinalized (ContainerDataExecutionOptimistic RootContainer)),
      (''getStateFork'', WithFinalized (ContainerDataExecutionOptimistic (ssz ''phase0.Fork''))),
      (''getStateRandao'', WithFinalized (ContainerDataExecutionOptimistic RandaoContainer)),
      (''getStateFinalityCheckpoints'',
         WithFinalized (ContainerDataExecutionOptimistic FinalityCheckpoints)),
      (''getStateValidators'',
         WithFinalized (ContainerDataExecutionOptimistic (ArrayOf ValidatorResponse))),
      (''postStateValidators'',
         WithFinalized (ContainerDataExecutionOptimistic (ArrayOf ValidatorResponse))),
      (''getStateValidator'',
         WithFinalized (ContainerDataExecutionOptimistic ValidatorResponse)),
      (''getStateValidatorBalances'',
         WithFinalized (ContainerDataExecutionOptimistic (ArrayOf ValidatorBalance))),
      (''postStateValidatorBalances'',
         WithFinalized (ContainerDataExecutionOptimistic (ArrayOf ValidatorBalance))),
      (''getEpochCommittees'',
         WithFinalized (ContainerDataExecutionOptimistic (ArrayOf EpochCommitteeResponse))),
      (''getEpochSyncCommittees'',
         WithFinalized (ContainerDataExecutionOptimistic EpochSyncCommitteesResponse))]"

text \<open>The payload type \<^verbatim>\<open>T\<close> of a return type \<^verbatim>\<open>WithFinalized(ContainerDataExecutionOptimistic(T))\<close>;
  a type expression of another form has none.\<close>

fun payload_schema :: "TypeExpr \<Rightarrow> TypeExpr option" where
  "payload_schema (WithFinalized (ContainerDataExecutionOptimistic T)) = Some T"
| "payload_schema _ = None"

subsection \<open>The response envelope\<close>

text \<open>
  Modelled from the spec: the types of the response codec, whose declarations \<^verbatim>\<open>state.ts\<close> does
  not contain. A JSON codec of values \<open>'t\<close> with JSON form \<open>'j\<close> has the two renderings that the
  spec calls \<^verbatim>\<open>encodeJSON\<close> and \<^verbatim>\<open>decodeJSON\<close>; the envelope is
  \<^verbatim>\<open>{data: T, executionOptimistic: boolean, finalized: boolean}\<close> and its JSON form
  \<^verbatim>\<open>{data: <payload>, execution_optimistic?: boolean, finalized?: boolean}\<close>.
\<close>

record ('t, 'j) TypeJson =
  encodeJSON :: "'t \<Rightarrow> 'j"
  decodeJSON :: "'j \<Rightarrow> Error + 't"

record 't DataExecutionOptimistic =
  data :: 't
  executionOptimistic :: bool

record 't ResponseEnvelope = "'t DataExecutionOptimistic" +
  finalized :: bool

record 'j DataExecutionOptimisticJson =
  data_json :: 'j
  execution_optimistic :: "bool option"

record 'j ResponseEnvelopeJson = "'j DataExecutionOptimisticJson" +
  finalized_json :: "bool option"

text \<open>
  Modelled from the spec: the combinator \<^verbatim>\<open>ContainerDataExecutionOptimistic\<close> of
  \<^verbatim>\<open>utils/index.js\<close>, which \<^verbatim>\<open>state.ts\<close> imports without its source. The spec (3, 6) gives the
  envelope \<^verbatim>\<open>{data: T, executionOptimistic: boolean}\<close>, its JSON form
  \<^verbatim>\<open>{data: <payload>, execution_optimistic?: boolean}\<close>, and the default \<^verbatim>\<open>false\<close> for a flag that
  is absent on decode.
\<close>

definition ContainerDataExecutionOptimistic_codec ::
  "('t, 'j) TypeJson \<Rightarrow> ('t DataExecutionOptimistic, 'j DataExecutionOptimisticJson) TypeJson"
where
  "ContainerDataExecutionOptimistic_codec dataType =
     \<lparr>encodeJSON = (\<lambda>v.
        \<lparr>data_json = encodeJSON dataType (data v),
         execution_optimistic = Some (executionOptimistic v)\<rparr>),
      decodeJSON = (\<lambda>j.
        case decodeJSON dataType (data_json j) of
          Inl e \<Rightarrow> Inl e
        | Inr d \<Rightarrow>
            Inr \<lparr>data = d,
                 executionOptimistic =
                   (case execution_optimistic j of None \<Rightarrow> False | Some b \<Rightarrow> b)\<rparr>)\<rparr>"

text \<open>
  Modelled from the spec: the combinator \<^verbatim>\<open>WithFinalized\<close> of \<^verbatim>\<open>utils/index.js\<close>, missing like
  \<^verbatim>\<open>ContainerDataExecutionOptimistic\<close>. It adds \<^verbatim>\<open>finalized: boolean\<close> to the envelope and
  \<^verbatim>\<open>finalized?: boolean\<close> to its JSON form, with the default \<^verbatim>\<open>false\<close> when absent on decode.
\<close>

definition WithFinalized_codec ::
  "('t DataExecutionOptimistic, 'j DataExecutionOptimisticJson) TypeJson
     \<Rightarrow> ('t ResponseEnvelope, 'j ResponseEnvelopeJson) TypeJson"
where
  "WithFinalized_codec type =
     \<lparr>encodeJSON = (\<lambda>v.
        let j = encodeJSON type \<lparr>data = data v, executionOptimistic = executionOptimistic v\<rparr>
        in \<lparr>data_json = data_json j,
            execution_optimistic = execution_optimistic j,
            finalized_json = Some (finalized v)\<rparr>),
      decodeJSON = (\<lambda>j.
        case decodeJSON type
               \<lparr>data_json = data_json j, execution_optimistic = execution_optimistic j\<rparr> of
          Inl e \<Rightarrow> Inl e
        | Inr v \<Rightarrow>
            Inr \<lparr>data = data v,
                 executionOptimistic = executionOptimistic v,
                 finalized = (case finalized_json j of None \<Rightarrow> False | Some b \<Rightarrow> b)\<rparr>)\<rparr>"

text \<open>The codec of 64-bit integers, a payload codec to apply the envelope to.\<close>

definition U64_codec :: "(nat, string) TypeJson" where
  "U64_codec = \<lparr>encodeJSON = toU64Str, decodeJSON = fromU64Str\<rparr>"

text \<open>
  The codec that a return type of \<^verbatim>\<open>getReturnTypes\<close> is: the expression
  \<^verbatim>\<open>WithFinalized(ContainerDataExecutionOptimistic(T))\<close> applies the two combinators to the codec
  of the payload type \<^verbatim>\<open>T\<close>. The codecs of the payload types are the library's
  (\<^verbatim>\<open>ContainerType\<close>, \<^verbatim>\<open>ssz\<close>, \<^verbatim>\<open>ArrayOf\<close>) and are the parameter \<open>payload\<close>, which gives a codec for
  each payload type expression. A type expression of another form is not an envelope codec.
\<close>

fun codec_of ::
  "(TypeExpr \<Rightarrow> ('t, 'j) TypeJson) \<Rightarrow> TypeExpr
     \<Rightarrow> ('t ResponseEnvelope, 'j ResponseEnvelopeJson) TypeJson option"
where
  "codec_of payload (WithFinalized (ContainerDataExecutionOptimistic T)) =
     Some (WithFinalized_codec (ContainerDataExecutionOptimistic_codec (payload T)))"
| "codec_of payload _ = None"

subsection \<open>Validator ids that cross the wire unchanged\<close>

text \<open>
  The interface documents a validator id as \<^emph>\<open>either hex encoded public key (with 0x prefix) or
  validator index\<close>. A string id with the \<^verbatim>\<open>0x\<close> prefix and a numeric id of at most 64 bits are
  the ids of that form.
\<close>

fun wire_safe_id :: "ValidatorId \<Rightarrow> bool" where
  "wire_safe_id (VidStr s) = startsWith s ''0x''"
| "wire_safe_id (VidNum n) = (n \<le> 2 ^ 64 - 1)"

definition wire_safe_filters :: "ValidatorFilters option \<Rightarrow> bool" where
  "wire_safe_filters filters =
     (case filters of
        None \<Rightarrow> True
      | Some f \<Rightarrow> (case id_filter f of None \<Rightarrow> True | Some xs \<Rightarrow> list_all wire_safe_id xs))"

section \<open>The large-integer wire codec round-trips\<close>

lemma digit_value_digit_char: "d < 10 \<Longrightarrow> digit_value (digit_char d) = d"
  by (simp add: digit_value_def digit_char_def)

lemma is_digit_digit_char: "d < 10 \<Longrightarrow> is_digit (digit_char d)"
  by (simp add: is_digit_def digit_char_def)

lemma digit_char_zero: "d < 10 \<Longrightarrow> digit_char d = CHR ''0'' \<Longrightarrow> d = 0"
proof -
  assume d: "d < 10" and z: "digit_char d = CHR ''0''"
  from z have "(of_char (digit_char d) :: nat) = of_char (CHR ''0'')"
    by simp
  with d show "d = 0"
    by (simp add: digit_char_def)
qed

lemma decimal_value_snoc: "decimal_value (s @ [c]) = 10 * decimal_value s + digit_value c"
  by (simp add: decimal_value_def)

lemma decimal_not_Nil: "decimal n \<noteq> []"
  by (subst decimal.simps) simp

lemma decimal_all_digits: "list_all is_digit (decimal n)"
proof (induction n rule: decimal.induct)
  case (1 n)
  show ?case
  proof (cases "n < 10")
    case True
    then show ?thesis
      by (subst decimal.simps) (simp add: is_digit_digit_char)
  next
    case False
    with 1 have "list_all is_digit (decimal (n div 10))"
      by simp
    with False show ?thesis
      by (subst decimal.simps) (simp add: is_digit_digit_char)
  qed
qed

lemma decimal_value_decimal: "decimal_value (decimal n) = n"
proof (induction n rule: decimal.induct)
  case (1 n)
  show ?case
  proof (cases "n < 10")
    case True
    then show ?thesis
      by (subst decimal.simps) (simp add: decimal_value_def digit_value_digit_char)
  next
    case False
    with 1 have "decimal_value (decimal (n div 10)) = n div 10"
      by simp
    with False show ?thesis
      by (subst decimal.simps) (simp add: decimal_value_snoc digit_value_digit_char)
  qed
qed

lemma hd_decimal_zero: "hd (decimal n) = CHR ''0'' \<Longrightarrow> n = 0"
proof (induction n rule: decimal.induct)
  case (1 n)
  show ?case
  proof (cases "n < 10")
    case True
    with "1.prems" have "digit_char n = CHR ''0''"
      by (subst (asm) decimal.simps) simp
    with True show ?thesis
      by (rule digit_char_zero)
  next
    case False
    with "1.prems" have "hd (decimal (n div 10)) = CHR ''0''"
      by (subst (asm) decimal.simps) (simp add: decimal_not_Nil)
    with False 1 have "n div 10 = 0"
      by simp
    with False show ?thesis
      by simp
  qed
qed

lemma has_leading_zero_iff:
  "has_leading_zero s \<longleftrightarrow> (\<exists>t. s = CHR ''0'' # t \<and> t \<noteq> [])"
  by (auto simp: has_leading_zero_def split: list.splits)

lemma decimal_no_leading_zero: "\<not> has_leading_zero (decimal n)"
proof
  assume "has_leading_zero (decimal n)"
  then obtain t where t: "decimal n = CHR ''0'' # t" "t \<noteq> []"
    by (auto simp: has_leading_zero_iff)
  then have "hd (decimal n) = CHR ''0''"
    by simp
  then have "n = 0"
    by (rule hd_decimal_zero)
  then have "decimal n = [digit_char 0]"
    by (subst decimal.simps) simp
  with t show False
    by simp
qed

lemma fromU64Str_toU64Str: "n \<le> 2 ^ 64 - 1 \<Longrightarrow> fromU64Str (toU64Str n) = Inr n"
  by (simp add: fromU64Str_def toU64Str_def decimal_all_digits decimal_no_leading_zero
      decimal_value_decimal)

lemma is_digit_iff: "is_digit c \<longleftrightarrow> c \<in> set ''0123456789''"
proof
  assume "is_digit c"
  then have "(of_char c :: nat) = of_char (CHR ''0'') \<or> (of_char c :: nat) = of_char (CHR ''1'')
      \<or> (of_char c :: nat) = of_char (CHR ''2'') \<or> (of_char c :: nat) = of_char (CHR ''3'')
      \<or> (of_char c :: nat) = of_char (CHR ''4'') \<or> (of_char c :: nat) = of_char (CHR ''5'')
      \<or> (of_char c :: nat) = of_char (CHR ''6'') \<or> (of_char c :: nat) = of_char (CHR ''7'')
      \<or> (of_char c :: nat) = of_char (CHR ''8'') \<or> (of_char c :: nat) = of_char (CHR ''9'')"
    unfolding is_digit_def by simp arith
  then have "c = CHR ''0'' \<or> c = CHR ''1'' \<or> c = CHR ''2'' \<or> c = CHR ''3'' \<or> c = CHR ''4''
      \<or> c = CHR ''5'' \<or> c = CHR ''6'' \<or> c = CHR ''7'' \<or> c = CHR ''8'' \<or> c = CHR ''9''"
    by (simp only: of_char_eq_iff)
  then show "c \<in> set ''0123456789''"
    by auto
next
  assume "c \<in> set ''0123456789''"
  then show "is_digit c"
    by (auto simp: is_digit_def)
qed

lemma toU64Str_not_0x: "\<not> startsWith (toU64Str n) ''0x''"
proof
  assume "startsWith (toU64Str n) ''0x''"
  then obtain t where "decimal n = CHR ''0'' # CHR ''x'' # t"
    by (cases "decimal n"; cases "tl (decimal n)") (auto simp: startsWith_def toU64Str_def)
  with decimal_all_digits [of n] show False
    by (simp add: is_digit_def)
qed

lemma parseReq_id_writeReq_id: "wire_safe_id x \<Longrightarrow> parseReq_id (writeReq_id x) = Inr x"
  by (cases x) (simp_all add: parseReq_id_def toU64Str_not_0x fromU64Str_toU64Str)

lemma map_throwing_parse_write:
  "list_all wire_safe_id xs \<Longrightarrow> map_throwing parseReq_id (map writeReq_id xs) = Inr xs"
  by (induction xs) (simp_all add: parseReq_id_writeReq_id)

lemma map_throwing_Inr:
  "map_throwing f xs = Inr ys \<longleftrightarrow> list_all2 (\<lambda>x y. f x = Inr y) xs ys"
proof (induction xs arbitrary: ys)
  case Nil
  then show ?case by auto
next
  case (Cons x xs)
  have "map_throwing f (x # xs) = Inr ys \<longleftrightarrow>
        (\<exists>y ys'. ys = y # ys' \<and> f x = Inr y \<and> map_throwing f xs = Inr ys')"
    by (auto split: sum.splits)
  also have "\<dots> \<longleftrightarrow> (\<exists>y ys'. ys = y # ys' \<and> f x = Inr y \<and> list_all2 (\<lambda>x y. f x = Inr y) xs ys')"
    by (simp add: Cons.IH)
  also have "\<dots> \<longleftrightarrow> list_all2 (\<lambda>x y. f x = Inr y) (x # xs) ys"
    by (cases ys) auto
  finally show ?case .
qed

lemma parseReq_id_Inr:
  "parseReq_id x = Inr y \<longleftrightarrow>
     (if startsWith x ''0x'' then y = VidStr x else \<exists>n. fromU64Str x = Inr n \<and> y = VidNum n)"
  by (auto simp: parseReq_id_def split: sum.splits)


lemma fromU64Str_Inl:
  "fromU64Str s = Inl e \<longleftrightarrow>
     e = MalformedNumber \<and>
     (\<not> list_all is_digit s \<or> has_leading_zero s \<or> decimal_value s > 2 ^ 64 - 1)"
  by (auto simp: fromU64Str_def)

text \<open>
  Claim C3. The large-integer wire codec round-trips every \<open>n\<close> of \<open>[0, 2\<^sup>6\<^sup>4 - 1]\<close>:
  \<open>fromU64Str (toU64Str n) = n\<close>. \<open>fromU64Str\<close> fails, and then with MalformedNumber, exactly
  when its input contains a character that is not a digit, has a leading zero other than the
  literal \<^verbatim>\<open>"0"\<close>, or denotes a value above \<open>2\<^sup>6\<^sup>4 - 1\<close>; it rejects \<^verbatim>\<open>"01"\<close>, \<^verbatim>\<open>"-1"\<close>, \<^verbatim>\<open>"abc"\<close>
  and \<^verbatim>\<open>"18446744073709551616"\<close>.
\<close>

theorem fromU64Str_toU64Str_codec:
  "(n \<le> 2 ^ 64 - 1 \<longrightarrow> fromU64Str (toU64Str n) = Inr n) \<and>
   (fromU64Str s = Inl MalformedNumber \<longleftrightarrow>
      (\<exists>c \<in> set s. c \<notin> set ''0123456789'') \<or>
      (\<exists>t. s = CHR ''0'' # t \<and> t \<noteq> []) \<or>
      decimal_value s > 2 ^ 64 - 1) \<and>
   ((\<exists>e. fromU64Str s = Inl e) \<longleftrightarrow> fromU64Str s = Inl MalformedNumber) \<and>
   fromU64Str ''01'' = Inl MalformedNumber \<and>
   fromU64Str ''-1'' = Inl MalformedNumber \<and>
   fromU64Str ''abc'' = Inl MalformedNumber \<and>
   fromU64Str ''18446744073709551616'' = Inl MalformedNumber"
proof -
  have digits: "\<not> list_all is_digit s \<longleftrightarrow> (\<exists>c \<in> set s. c \<notin> set ''0123456789'')"
    using is_digit_iff unfolding list_all_iff by blast
  have "fromU64Str s = Inl MalformedNumber \<longleftrightarrow>
      (\<exists>c \<in> set s. c \<notin> set ''0123456789'') \<or>
      (\<exists>t. s = CHR ''0'' # t \<and> t \<noteq> []) \<or>
      decimal_value s > 2 ^ 64 - 1"
    by (simp only: fromU64Str_Inl digits has_leading_zero_iff) simp
  moreover have "(\<exists>e. fromU64Str s = Inl e) \<longleftrightarrow> fromU64Str s = Inl MalformedNumber"
    by (auto simp: fromU64Str_Inl)
  moreover have "fromU64Str ''01'' = Inl MalformedNumber"
    by (simp add: fromU64Str_def is_digit_def has_leading_zero_def)
  moreover have "fromU64Str ''-1'' = Inl MalformedNumber"
    by (simp add: fromU64Str_def is_digit_def)
  moreover have "fromU64Str ''abc'' = Inl MalformedNumber"
    by (simp add: fromU64Str_def is_digit_def)
  moreover have "fromU64Str ''18446744073709551616'' = Inl MalformedNumber"
    by (simp add: fromU64Str_def is_digit_def has_leading_zero_def decimal_value_def
        digit_value_def)
  ultimately show ?thesis
    using fromU64Str_toU64Str [of n] by blast
qed

text \<open>The round trip at the largest 64-bit value, and the rejection of \<^verbatim>\<open>"01"\<close> for its leading
  zero.\<close>

theorem fromU64Str_toU64Str_codec_witness:
  "(18446744073709551615 :: nat) \<le> 2 ^ 64 - 1 \<and>
   fromU64Str (toU64Str 18446744073709551615) = Inr 18446744073709551615 \<and>
   fromU64Str ''01'' = Inl MalformedNumber \<and>
   (\<exists>t. ''01'' = CHR ''0'' # t \<and> t \<noteq> [])"
  using fromU64Str_toU64Str_codec [of 18446744073709551615 "''01''"] by simp

section \<open>Request serializers: writing, then parsing\<close>

lemma digit_char_numeral:
  "digit_char 0 = CHR ''0''" "digit_char (Suc 0) = CHR ''1''" "digit_char 2 = CHR ''2''"
  "digit_char 3 = CHR ''3''" "digit_char 4 = CHR ''4''" "digit_char 5 = CHR ''5''"
  "digit_char 6 = CHR ''6''" "digit_char 7 = CHR ''7''" "digit_char 8 = CHR ''8''"
  "digit_char 9 = CHR ''9''"
  by (simp_all add: digit_char_def char_of_def bit_0)

lemmas stateIdOnlyReq_defs =
  getStateFinalityCheckpoints_writeReq_def getStateFinalityCheckpoints_parseReq_def
  getStateFork_writeReq_def getStateFork_parseReq_def
  getStateRoot_writeReq_def getStateRoot_parseReq_def
  stateIdOnlyReq_writeReq_def stateIdOnlyReq_parseReq_def

lemmas parseReq_defs =
  stateIdOnlyReq_defs getEpochCommittees_parseReq_def getEpochSyncCommittees_parseReq_def
  getStateRandao_parseReq_def getStateValidator_parseReq_def getStateValidators_parseReq_def
  postStateValidators_parseReq_def getStateValidatorBalances_parseReq_def
  postStateValidatorBalances_parseReq_def

lemma postStateValidators_roundtrip:
  "wire_safe_filters (Some vf) \<Longrightarrow>
   postStateValidators_parseReq (postStateValidators_writeReq sid (Some vf)) = Inr (sid, Some vf)"
  by (cases "id_filter vf")
    (simp_all add: postStateValidators_parseReq_def postStateValidators_writeReq_def
      wire_safe_filters_def map_throwing_parse_write)

lemma postStateValidators_roundtrip_None:
  "postStateValidators_parseReq (postStateValidators_writeReq sid None) =
     Inr (sid, Some \<lparr>id_filter = None, status_filter = None\<rparr>)"
  by (simp add: postStateValidators_parseReq_def postStateValidators_writeReq_def)

lemma postStateValidatorBalances_roundtrip:
  "list_all wire_safe_id xs \<Longrightarrow>
   postStateValidatorBalances_parseReq (postStateValidatorBalances_writeReq sid (Some xs)) =
     Inr (sid, Some xs)"
  by (simp add: postStateValidatorBalances_parseReq_def postStateValidatorBalances_writeReq_def
      map_throwing_parse_write)

lemma postStateValidatorBalances_roundtrip_None:
  "postStateValidatorBalances_parseReq (postStateValidatorBalances_writeReq sid None) =
     Inr (sid, Some [])"
  by (simp add: postStateValidatorBalances_parseReq_def postStateValidatorBalances_writeReq_def)

text \<open>
  Claim C1, as the spec states it: for every operation and every accepted argument tuple,
  \<^verbatim>\<open>parseReq(writeReq(args))\<close> is a tuple equal to \<^verbatim>\<open>args\<close>. It fails where \<^verbatim>\<open>writeReq\<close> normalizes
  its arguments: \<^verbatim>\<open>stateIdOnlyReq\<close> writes \<^verbatim>\<open>String(state_id)\<close>, so the slot \<open>12345\<close> (a number)
  comes back as the string \<^verbatim>\<open>"12345"\<close>; \<^verbatim>\<open>filters || {}\<close> brings absent filters back as the empty
  object; and the POST serializers parse every string without the \<^verbatim>\<open>0x\<close> prefix as a number,
  so the string id \<^verbatim>\<open>"42"\<close> does not come back as a string.
\<close>

theorem parseReq_writeReq_counterexample:
  "getStateFork_parseReq (getStateFork_writeReq (\<lambda>n. ''?'') (SidNum 12345)) =
     Inr (SidStr ''12345'') \<and>
   getStateFork_parseReq (getStateFork_writeReq (\<lambda>n. ''?'') (SidNum 12345)) \<noteq>
     Inr (SidNum 12345) \<and>
   getEpochCommittees_parseReq (getEpochCommittees_writeReq (SidStr ''head'') None) \<noteq>
     Inr (SidStr ''head'', None) \<and>
   postStateValidatorBalances_parseReq
     (postStateValidatorBalances_writeReq (SidStr ''head'') (Some [VidStr ''42''])) \<noteq>
     Inr (SidStr ''head'', Some [VidStr ''42''])"
proof -
  have "decimal 12345 = ''12345''"
    by (simp add: decimal.simps digit_char_numeral)
  then have "getStateFork_parseReq (getStateFork_writeReq (\<lambda>n. ''?'') (SidNum 12345)) =
      Inr (SidStr ''12345'')"
    by (simp add: stateIdOnlyReq_defs MAX_SAFE_INTEGER_def)
  moreover have "getEpochCommittees_parseReq (getEpochCommittees_writeReq (SidStr ''head'') None) \<noteq>
      Inr (SidStr ''head'', None)"
    by (simp add: getEpochCommittees_parseReq_def getEpochCommittees_writeReq_def)
  moreover have "postStateValidatorBalances_parseReq
      (postStateValidatorBalances_writeReq (SidStr ''head'') (Some [VidStr ''42''])) \<noteq>
      Inr (SidStr ''head'', Some [VidStr ''42''])"
    by (simp add: postStateValidatorBalances_parseReq_def postStateValidatorBalances_writeReq_def
        parseReq_id_def startsWith_def split: sum.splits)
  ultimately show ?thesis
    by simp
qed

text \<open>
  Claim C1, amended: \<^verbatim>\<open>parseReq(writeReq(args))\<close> returns \<^verbatim>\<open>args\<close> for every operation, with these
  normalizations. The three operations bound to \<^verbatim>\<open>stateIdOnlyReq\<close> (\<^verbatim>\<open>getStateFinalityCheckpoints\<close>,
  \<^verbatim>\<open>getStateFork\<close>, \<^verbatim>\<open>getStateRoot\<close>) return the state id as the string \<^verbatim>\<open>String(state_id)\<close>: the
  argument itself when that is a string, and the decimal digits of a numeric slot up to
  \<^verbatim>\<open>Number.MAX_SAFE_INTEGER\<close>. Absent filters of \<^verbatim>\<open>getEpochCommittees\<close>,
  \<^verbatim>\<open>getStateValidators\<close> and \<^verbatim>\<open>postStateValidators\<close> come back as the empty filters object, and
  absent indices of \<^verbatim>\<open>postStateValidatorBalances\<close> as the empty list. The two POST operations
  return the id list they were given when each string id has the \<^verbatim>\<open>0x\<close> prefix and each numeric
  id is at most \<open>2\<^sup>6\<^sup>4 - 1\<close>. \<^verbatim>\<open>getEpochSyncCommittees\<close>, \<^verbatim>\<open>getStateRandao\<close>, \<^verbatim>\<open>getStateValidator\<close> and
  \<^verbatim>\<open>getStateValidatorBalances\<close> return their arguments as they are.
\<close>

theorem parseReq_writeReq:
  "getStateFinalityCheckpoints_parseReq
     (getStateFinalityCheckpoints_writeReq inexact (SidStr s)) = Inr (SidStr s) \<and>
   (n \<le> MAX_SAFE_INTEGER \<longrightarrow>
      getStateFinalityCheckpoints_parseReq
        (getStateFinalityCheckpoints_writeReq inexact (SidNum n)) = Inr (SidStr (decimal n))) \<and>
   getStateFork_parseReq (getStateFork_writeReq inexact (SidStr s)) = Inr (SidStr s) \<and>
   (n \<le> MAX_SAFE_INTEGER \<longrightarrow>
      getStateFork_parseReq (getStateFork_writeReq inexact (SidNum n)) =
        Inr (SidStr (decimal n))) \<and>
   getStateRoot_parseReq (getStateRoot_writeReq inexact (SidStr s)) = Inr (SidStr s) \<and>
   (n \<le> MAX_SAFE_INTEGER \<longrightarrow>
      getStateRoot_parseReq (getStateRoot_writeReq inexact (SidNum n)) =
        Inr (SidStr (decimal n))) \<and>
   getEpochCommittees_parseReq (getEpochCommittees_writeReq sid (Some cf)) = Inr (sid, Some cf) \<and>
   getEpochCommittees_parseReq (getEpochCommittees_writeReq sid None) =
     Inr (sid, Some \<lparr>epoch = None, index = None, slot = None\<rparr>) \<and>
   getEpochSyncCommittees_parseReq (getEpochSyncCommittees_writeReq sid ep) = Inr (sid, ep) \<and>
   getStateRandao_parseReq (getStateRandao_writeReq sid ep) = Inr (sid, ep) \<and>
   getStateValidator_parseReq (getStateValidator_writeReq sid vid) = Inr (sid, vid) \<and>
   getStateValidators_parseReq (getStateValidators_writeReq sid (Some vf)) = Inr (sid, Some vf) \<and>
   getStateValidators_parseReq (getStateValidators_writeReq sid None) =
     Inr (sid, Some \<lparr>id_filter = None, status_filter = None\<rparr>) \<and>
   (wire_safe_filters (Some vf) \<longrightarrow>
      postStateValidators_parseReq (postStateValidators_writeReq sid (Some vf)) =
        Inr (sid, Some vf)) \<and>
   postStateValidators_parseReq (postStateValidators_writeReq sid None) =
     Inr (sid, Some \<lparr>id_filter = None, status_filter = None\<rparr>) \<and>
   getStateValidatorBalances_parseReq (getStateValidatorBalances_writeReq sid vids) =
     Inr (sid, vids) \<and>
   (list_all wire_safe_id xs \<longrightarrow>
      postStateValidatorBalances_parseReq (postStateValidatorBalances_writeReq sid (Some xs)) =
        Inr (sid, Some xs)) \<and>
   postStateValidatorBalances_parseReq (postStateValidatorBalances_writeReq sid None) =
     Inr (sid, Some [])"
proof -
  have "getStateFinalityCheckpoints_parseReq
      (getStateFinalityCheckpoints_writeReq inexact (SidStr s)) = Inr (SidStr s)"
    and "n \<le> MAX_SAFE_INTEGER \<longrightarrow>
      getStateFinalityCheckpoints_parseReq
        (getStateFinalityCheckpoints_writeReq inexact (SidNum n)) = Inr (SidStr (decimal n))"
    and "getStateFork_parseReq (getStateFork_writeReq inexact (SidStr s)) = Inr (SidStr s)"
    and "n \<le> MAX_SAFE_INTEGER \<longrightarrow>
      getStateFork_parseReq (getStateFork_writeReq inexact (SidNum n)) =
        Inr (SidStr (decimal n))"
    and "getStateRoot_parseReq (getStateRoot_writeReq inexact (SidStr s)) = Inr (SidStr s)"
    and "n \<le> MAX_SAFE_INTEGER \<longrightarrow>
      getStateRoot_parseReq (getStateRoot_writeReq inexact (SidNum n)) =
        Inr (SidStr (decimal n))"
    by (simp_all add: stateIdOnlyReq_defs)
  moreover have
    "getEpochCommittees_parseReq (getEpochCommittees_writeReq sid (Some cf)) = Inr (sid, Some cf)"
    and "getEpochCommittees_parseReq (getEpochCommittees_writeReq sid None) =
      Inr (sid, Some \<lparr>epoch = None, index = None, slot = None\<rparr>)"
    by (simp_all add: getEpochCommittees_parseReq_def getEpochCommittees_writeReq_def)
  moreover have
    "getEpochSyncCommittees_parseReq (getEpochSyncCommittees_writeReq sid ep) = Inr (sid, ep)"
    by (simp add: getEpochSyncCommittees_parseReq_def getEpochSyncCommittees_writeReq_def)
  moreover have "getStateRandao_parseReq (getStateRandao_writeReq sid ep) = Inr (sid, ep)"
    by (simp add: getStateRandao_parseReq_def getStateRandao_writeReq_def)
  moreover have "getStateValidator_parseReq (getStateValidator_writeReq sid vid) = Inr (sid, vid)"
    by (simp add: getStateValidator_parseReq_def getStateValidator_writeReq_def)
  moreover have
    "getStateValidators_parseReq (getStateValidators_writeReq sid (Some vf)) = Inr (sid, Some vf)"
    and "getStateValidators_parseReq (getStateValidators_writeReq sid None) =
      Inr (sid, Some \<lparr>id_filter = None, status_filter = None\<rparr>)"
    by (simp_all add: getStateValidators_parseReq_def getStateValidators_writeReq_def)
  moreover have
    "getStateValidatorBalances_parseReq (getStateValidatorBalances_writeReq sid vids) =
      Inr (sid, vids)"
    by (simp add: getStateValidatorBalances_parseReq_def getStateValidatorBalances_writeReq_def)
  ultimately show ?thesis
    using postStateValidators_roundtrip [of vf sid] postStateValidators_roundtrip_None [of sid]
      postStateValidatorBalances_roundtrip [of xs sid]
      postStateValidatorBalances_roundtrip_None [of sid]
    by simp
qed

text \<open>The slot \<open>12345\<close> through \<^verbatim>\<open>getStateFork\<close>, \<^verbatim>\<open>getStateRoot\<close> and
  \<^verbatim>\<open>getStateFinalityCheckpoints\<close>, and both POST operations on id lists that mix a validator
  index and a public key.\<close>

theorem parseReq_writeReq_witness:
  "(12345 :: nat) \<le> MAX_SAFE_INTEGER \<and>
   getStateFinalityCheckpoints_parseReq
     (getStateFinalityCheckpoints_writeReq (\<lambda>n. ''?'') (SidNum 12345)) =
     Inr (SidStr ''12345'') \<and>
   getStateFork_parseReq (getStateFork_writeReq (\<lambda>n. ''?'') (SidNum 12345)) =
     Inr (SidStr ''12345'') \<and>
   getStateRoot_parseReq (getStateRoot_writeReq (\<lambda>n. ''?'') (SidNum 12345)) =
     Inr (SidStr ''12345'') \<and>
   wire_safe_filters
     (Some \<lparr>id_filter = Some [VidNum 42, VidStr ''0xaa''], status_filter = Some [active_ongoing]\<rparr>) \<and>
   postStateValidators_parseReq
     (postStateValidators_writeReq (SidStr ''head'')
        (Some \<lparr>id_filter = Some [VidNum 42, VidStr ''0xaa''],
               status_filter = Some [active_ongoing]\<rparr>)) =
     Inr (SidStr ''head'',
          Some \<lparr>id_filter = Some [VidNum 42, VidStr ''0xaa''],
                status_filter = Some [active_ongoing]\<rparr>) \<and>
   list_all wire_safe_id [VidNum 7, VidStr ''0xb5''] \<and>
   postStateValidatorBalances_parseReq
     (postStateValidatorBalances_writeReq (SidStr ''head'') (Some [VidNum 7, VidStr ''0xb5''])) =
     Inr (SidStr ''head'', Some [VidNum 7, VidStr ''0xb5''])"
proof -
  have safe: "(12345 :: nat) \<le> MAX_SAFE_INTEGER"
    by (simp add: MAX_SAFE_INTEGER_def)
  have digits: "decimal 12345 = ''12345''"
    by (simp add: decimal.simps digit_char_numeral)
  from safe digits
    parseReq_writeReq [where vf = "\<lparr>id_filter = Some [VidNum 42, VidStr ''0xaa''],
      status_filter = Some [active_ongoing]\<rparr>" and sid = "SidStr ''head''"
      and xs = "[VidNum 7, VidStr ''0xb5'']" and n = 12345 and inexact = "\<lambda>n. ''?''"]
  show ?thesis
    by (simp add: wire_safe_filters_def startsWith_def)
qed

section \<open>GET and POST variants of one query\<close>

lemma getStateValidators_roundtrip:
  "getStateValidators_parseReq (getStateValidators_writeReq sid filters) =
     Inr (sid, Some (case filters of Some f \<Rightarrow> f
                     | None \<Rightarrow> \<lparr>id_filter = None, status_filter = None\<rparr>))"
  by (simp add: getStateValidators_parseReq_def getStateValidators_writeReq_def)

lemma fromU64Str_42: "fromU64Str ''42'' = Inr 42"
  by (simp add: fromU64Str_def is_digit_def has_leading_zero_def decimal_value_def
      digit_value_def)

lemma toU64Str_42: "toU64Str 42 = ''42''"
  by (simp add: toU64Str_def decimal.simps digit_char_numeral)

lemma parseReq_id_42: "parseReq_id ''42'' = Inr (VidNum 42)"
  by (simp add: parseReq_id_def startsWith_def fromU64Str_42)

text \<open>
  Claim C2, as the spec states it: for every state id and every \<^verbatim>\<open>ValidatorFilters\<close> value,
  \<^verbatim>\<open>getStateValidators\<close> and \<^verbatim>\<open>postStateValidators\<close> parse what they wrote to the same argument
  tuple, and so do \<^verbatim>\<open>getStateValidatorBalances\<close> and \<^verbatim>\<open>postStateValidatorBalances\<close> for every
  id list. A \<^verbatim>\<open>ValidatorId\<close> is \<^verbatim>\<open>string | number\<close>, and for the string id \<^verbatim>\<open>"42"\<close> the claim fails:
  the GET variants return the string, the POST variants, which keep only strings with the
  \<^verbatim>\<open>0x\<close> prefix as strings, return the number \<open>42\<close>.
\<close>

theorem get_post_same_arguments_counterexample:
  "getStateValidators_parseReq
     (getStateValidators_writeReq (SidStr ''head'')
        (Some \<lparr>id_filter = Some [VidStr ''42''], status_filter = None\<rparr>)) =
     Inr (SidStr ''head'', Some \<lparr>id_filter = Some [VidStr ''42''], status_filter = None\<rparr>) \<and>
   postStateValidators_parseReq
     (postStateValidators_writeReq (SidStr ''head'')
        (Some \<lparr>id_filter = Some [VidStr ''42''], status_filter = None\<rparr>)) =
     Inr (SidStr ''head'', Some \<lparr>id_filter = Some [VidNum 42], status_filter = None\<rparr>) \<and>
   getStateValidatorBalances_parseReq
     (getStateValidatorBalances_writeReq (SidStr ''head'') (Some [VidStr ''42''])) =
     Inr (SidStr ''head'', Some [VidStr ''42'']) \<and>
   postStateValidatorBalances_parseReq
     (postStateValidatorBalances_writeReq (SidStr ''head'') (Some [VidStr ''42''])) =
     Inr (SidStr ''head'', Some [VidNum 42])"
  by (simp add: getStateValidators_roundtrip postStateValidators_parseReq_def
      postStateValidators_writeReq_def getStateValidatorBalances_parseReq_def
      getStateValidatorBalances_writeReq_def postStateValidatorBalances_parseReq_def
      postStateValidatorBalances_writeReq_def parseReq_id_42)

text \<open>
  Claim C2, amended: for every state id and every \<^verbatim>\<open>ValidatorFilters\<close> value (or none) whose
  string ids have the \<^verbatim>\<open>0x\<close> prefix and whose numeric ids are at most \<open>2\<^sup>6\<^sup>4 - 1\<close>,
  \<^verbatim>\<open>getStateValidators\<close> and \<^verbatim>\<open>postStateValidators\<close> parse what they wrote to the same argument
  tuple; and for every list of such ids, so do \<^verbatim>\<open>getStateValidatorBalances\<close> and
  \<^verbatim>\<open>postStateValidatorBalances\<close>.
\<close>

theorem get_post_same_arguments:
  "(wire_safe_filters filters \<longrightarrow>
      getStateValidators_parseReq (getStateValidators_writeReq sid filters) =
        postStateValidators_parseReq (postStateValidators_writeReq sid filters)) \<and>
   (list_all wire_safe_id xs \<longrightarrow>
      getStateValidatorBalances_parseReq (getStateValidatorBalances_writeReq sid (Some xs)) =
        postStateValidatorBalances_parseReq (postStateValidatorBalances_writeReq sid (Some xs)))"
proof (intro conjI impI)
  assume safe: "wire_safe_filters filters"
  show "getStateValidators_parseReq (getStateValidators_writeReq sid filters) =
      postStateValidators_parseReq (postStateValidators_writeReq sid filters)"
  proof (cases filters)
    case None
    then show ?thesis
      by (simp add: getStateValidators_roundtrip postStateValidators_roundtrip_None)
  next
    case (Some f)
    with safe show ?thesis
      by (simp add: getStateValidators_roundtrip postStateValidators_roundtrip)
  qed
next
  assume "list_all wire_safe_id xs"
  then show "getStateValidatorBalances_parseReq (getStateValidatorBalances_writeReq sid (Some xs)) =
      postStateValidatorBalances_parseReq (postStateValidatorBalances_writeReq sid (Some xs))"
    by (simp add: postStateValidatorBalances_roundtrip getStateValidatorBalances_parseReq_def
        getStateValidatorBalances_writeReq_def)
qed

text \<open>Filters and an id list that mix a validator index and a public key.\<close>

theorem get_post_same_arguments_witness:
  "wire_safe_filters
     (Some \<lparr>id_filter = Some [VidNum 42, VidStr ''0xaa''], status_filter = Some [active_ongoing]\<rparr>) \<and>
   getStateValidators_parseReq
     (getStateValidators_writeReq (SidStr ''head'')
        (Some \<lparr>id_filter = Some [VidNum 42, VidStr ''0xaa''],
               status_filter = Some [active_ongoing]\<rparr>)) =
   postStateValidators_parseReq
     (postStateValidators_writeReq (SidStr ''head'')
        (Some \<lparr>id_filter = Some [VidNum 42, VidStr ''0xaa''],
               status_filter = Some [active_ongoing]\<rparr>)) \<and>
   list_all wire_safe_id [VidNum 7, VidStr ''0xb5''] \<and>
   getStateValidatorBalances_parseReq
     (getStateValidatorBalances_writeReq (SidStr ''head'') (Some [VidNum 7, VidStr ''0xb5''])) =
   postStateValidatorBalances_parseReq
     (postStateValidatorBalances_writeReq (SidStr ''head'') (Some [VidNum 7, VidStr ''0xb5'']))"
  using get_post_same_arguments [where filters = "Some \<lparr>id_filter = Some [VidNum 42, VidStr ''0xaa''],
      status_filter = Some [active_ongoing]\<rparr>" and sid = "SidStr ''head''"
      and xs = "[VidNum 7, VidStr ''0xb5'']"]
  by (simp add: wire_safe_filters_def startsWith_def)

section \<open>Scenario A and absent filters\<close>

text \<open>
  Claim C8. For \<^verbatim>\<open>postStateValidators\<close>, \<^verbatim>\<open>writeReq\<close> of the filter
  \<^verbatim>\<open>{id: [42, "0xaa..."], status: ["active_ongoing"]}\<close> gives exactly the body
  \<^verbatim>\<open>{ids: ["42", "0xaa..."], statuses: ["active_ongoing"]}\<close>, and \<^verbatim>\<open>parseReq\<close> of that body gives
  the filter back. The public key is \<^verbatim>\<open>0xaa\<close> followed by any string \<open>rest\<close>.
\<close>

theorem postStateValidators_scenario_A:
  "postStateValidators_writeReq sid
     (Some \<lparr>id_filter = Some [VidNum 42, VidStr (''0xaa'' @ rest)],
            status_filter = Some [active_ongoing]\<rparr>) =
     \<lparr>params = \<lparr>state_id = sid\<rparr>,
      query = (),
      body = \<lparr>ids = Some [''42'', ''0xaa'' @ rest], statuses = Some [active_ongoing]\<rparr>\<rparr> \<and>
   postStateValidators_parseReq
     \<lparr>params = \<lparr>state_id = sid\<rparr>,
      query = (),
      body = \<lparr>ids = Some [''42'', ''0xaa'' @ rest], statuses = Some [active_ongoing]\<rparr>\<rparr> =
     Inr (sid,
          Some \<lparr>id_filter = Some [VidNum 42, VidStr (''0xaa'' @ rest)],
                status_filter = Some [active_ongoing]\<rparr>)"
proof -
  have "parseReq_id (''0xaa'' @ rest) = Inr (VidStr (''0xaa'' @ rest))"
    by (simp add: parseReq_id_def startsWith_def)
  then show ?thesis
    by (simp add: postStateValidators_writeReq_def postStateValidators_parseReq_def
        toU64Str_42 parseReq_id_42)
qed

text \<open>
  Claim C10. Absent filters are written as empty containers: \<^verbatim>\<open>postStateValidatorBalances\<close>
  writes the body \<^verbatim>\<open>[]\<close> for absent indices, \<^verbatim>\<open>getStateValidators\<close> and \<^verbatim>\<open>getEpochCommittees\<close>
  write the query \<^verbatim>\<open>{}\<close> for absent filters. So an absent filter and an empty one give the same
  wire request, and \<^verbatim>\<open>parseReq\<close> returns the empty container, not absence.
\<close>

theorem absent_filters_normalized:
  "postStateValidatorBalances_writeReq sid None =
     \<lparr>params = \<lparr>state_id = sid\<rparr>, query = (), body = Some []\<rparr> \<and>
   postStateValidatorBalances_writeReq sid None = postStateValidatorBalances_writeReq sid (Some []) \<and>
   postStateValidatorBalances_parseReq (postStateValidatorBalances_writeReq sid None) =
     Inr (sid, Some []) \<and>
   getStateValidators_writeReq sid None =
     \<lparr>params = \<lparr>state_id = sid\<rparr>,
      query = \<lparr>id_filter = None, status_filter = None\<rparr>,
      body = ()\<rparr> \<and>
   getStateValidators_writeReq sid None =
     getStateValidators_writeReq sid (Some \<lparr>id_filter = None, status_filter = None\<rparr>) \<and>
   getStateValidators_parseReq (getStateValidators_writeReq sid None) =
     Inr (sid, Some \<lparr>id_filter = None, status_filter = None\<rparr>) \<and>
   getEpochCommittees_writeReq sid None =
     \<lparr>params = \<lparr>state_id = sid\<rparr>,
      query = \<lparr>epoch = None, index = None, slot = None\<rparr>,
      body = ()\<rparr> \<and>
   getEpochCommittees_writeReq sid None =
     getEpochCommittees_writeReq sid (Some \<lparr>epoch = None, index = None, slot = None\<rparr>) \<and>
   getEpochCommittees_parseReq (getEpochCommittees_writeReq sid None) =
     Inr (sid, Some \<lparr>epoch = None, index = None, slot = None\<rparr>)"
  by (simp add: postStateValidatorBalances_writeReq_def postStateValidatorBalances_parseReq_def
      getStateValidators_writeReq_def getStateValidators_parseReq_def
      getEpochCommittees_writeReq_def getEpochCommittees_parseReq_def)

section \<open>Identifiers\<close>

lemma parseReq_id_abc: "parseReq_id ''abc'' = Inl MalformedNumber"
  by (simp add: parseReq_id_def startsWith_def fromU64Str_def is_digit_def)

text \<open>
  Claim C6, as the spec states it: this layer classifies a \<^verbatim>\<open>StateId\<close> literal as an alias, a
  slot or a root, and rejects any other literal, such as \<^verbatim>\<open>"0xZZ..."\<close>, as malformed before it
  reaches a domain service, whichever operation it came through. The serializers have no such
  check: the schema of \<^verbatim>\<open>state_id\<close> is \<^verbatim>\<open>Schema.StringRequired\<close> in every operation, and
  \<^verbatim>\<open>parseReq\<close> hands \<^verbatim>\<open>params.state_id\<close> on as it is. The 66 characters \<^verbatim>\<open>0x\<close> and 64 times \<^verbatim>\<open>Z\<close>
  are accepted, and so are \<^verbatim>\<open>"0xZZ"\<close> and \<^verbatim>\<open>"not a state id"\<close>; the literal \<^verbatim>\<open>"12345"\<close> stays a
  string and does not become the slot \<open>12345\<close>.
\<close>

theorem parseReq_state_id_verbatim_counterexample:
  "getStateRoot_parseReq
     \<lparr>params =
        \<lparr>state_id = ''0xZZZZZZZZZZZZZZZZZZZZZZZZZZZZZZZZZZZZZZZZZZZZZZZZZZZZZZZZZZZZZZZZ''\<rparr>,
      query = (), body = ()\<rparr> =
     Inr (SidStr ''0xZZZZZZZZZZZZZZZZZZZZZZZZZZZZZZZZZZZZZZZZZZZZZZZZZZZZZZZZZZZZZZZZ'') \<and>
   length ''0xZZZZZZZZZZZZZZZZZZZZZZZZZZZZZZZZZZZZZZZZZZZZZZZZZZZZZZZZZZZZZZZZ'' = 66 \<and>
   getStateRandao_parseReq
     \<lparr>params = \<lparr>state_id = SidStr ''0xZZ''\<rparr>, query = \<lparr>epoch_q = None\<rparr>, body = ()\<rparr> =
     Inr (SidStr ''0xZZ'', None) \<and>
   postStateValidatorBalances_parseReq
     \<lparr>params = \<lparr>state_id = SidStr ''not a state id''\<rparr>, query = (), body = Some []\<rparr> =
     Inr (SidStr ''not a state id'', Some []) \<and>
   getStateFork_parseReq \<lparr>params = \<lparr>state_id = ''12345''\<rparr>, query = (), body = ()\<rparr> =
     Inr (SidStr ''12345'')"
  by (simp add: stateIdOnlyReq_defs getStateRandao_parseReq_def
      postStateValidatorBalances_parseReq_def)

text \<open>
  Claim C6, amended: this layer does not classify or reject \<^verbatim>\<open>StateId\<close> literals. For every
  operation and every wire request, \<^verbatim>\<open>parseReq\<close> returns the parameter \<^verbatim>\<open>state_id\<close> of the request
  as its first argument, unchanged and unexamined, and its schema asks of \<^verbatim>\<open>state_id\<close> only to
  be a string (\<^verbatim>\<open>Schema.StringRequired\<close>). The nine GET operations always return; the two POST
  operations, which can fail on their id lists, return that state id when they return and fail
  alike for every other \<^verbatim>\<open>params\<close> when they fail. Accepting only the aliases, a decimal slot or
  a 66-character root is left to the handler behind this layer.
\<close>

theorem parseReq_state_id_verbatim:
  "list_all (\<lambda>(name, s). map_of (params_schema s) ''state_id'' = Some StringRequired)
     getReqSerializers \<and>
   getStateFinalityCheckpoints_parseReq r1 = Inr (SidStr (state_id (params r1))) \<and>
   getStateFork_parseReq r1 = Inr (SidStr (state_id (params r1))) \<and>
   getStateRoot_parseReq r1 = Inr (SidStr (state_id (params r1))) \<and>
   map_sum id fst (getEpochCommittees_parseReq r2) = Inr (state_id (params r2)) \<and>
   map_sum id fst (getEpochSyncCommittees_parseReq r3) = Inr (state_id (params r3)) \<and>
   map_sum id fst (getStateRandao_parseReq r4) = Inr (state_id (params r4)) \<and>
   map_sum id fst (getStateValidator_parseReq r5) = Inr (state_id (params r5)) \<and>
   map_sum id fst (getStateValidators_parseReq r6) = Inr (state_id (params r6)) \<and>
   map_sum id fst (getStateValidatorBalances_parseReq r7) = Inr (state_id (params r7)) \<and>
   (postStateValidators_parseReq r8 = Inr (sid, filters) \<longrightarrow> sid = state_id (params r8)) \<and>
   (postStateValidators_parseReq r8 = Inl e \<longrightarrow>
      postStateValidators_parseReq (r8\<lparr>params := p\<rparr>) = Inl e) \<and>
   (postStateValidatorBalances_parseReq r9 = Inr (sid', vids) \<longrightarrow> sid' = state_id (params r9)) \<and>
   (postStateValidatorBalances_parseReq r9 = Inl e' \<longrightarrow>
      postStateValidatorBalances_parseReq (r9\<lparr>params := p\<rparr>) = Inl e')"
proof -
  have "list_all (\<lambda>(name, s). map_of (params_schema s) ''state_id'' = Some StringRequired)
      getReqSerializers"
    by (simp add: getReqSerializers_def stateIdOnlyReq_schema_def)
  then show ?thesis
    by (auto simp: parseReq_defs split: option.splits sum.splits)
qed

text \<open>The POST serializers on the state id \<^verbatim>\<open>"0xZZ"\<close>: they return it with the id \<^verbatim>\<open>"42"\<close>,
  and fail on the id \<^verbatim>\<open>"abc"\<close> as they do with the state id \<^verbatim>\<open>"head"\<close>.\<close>

theorem parseReq_state_id_verbatim_witness:
  "postStateValidators_parseReq
     \<lparr>params = \<lparr>state_id = SidStr ''0xZZ''\<rparr>, query = (),
      body = \<lparr>ids = Some [''42''], statuses = None\<rparr>\<rparr> =
     Inr (SidStr ''0xZZ'', Some \<lparr>id_filter = Some [VidNum 42], status_filter = None\<rparr>) \<and>
   postStateValidators_parseReq
     \<lparr>params = \<lparr>state_id = SidStr ''0xZZ''\<rparr>, query = (),
      body = \<lparr>ids = Some [''abc''], statuses = None\<rparr>\<rparr> = Inl MalformedNumber \<and>
   postStateValidators_parseReq
     \<lparr>params = \<lparr>state_id = SidStr ''head''\<rparr>, query = (),
      body = \<lparr>ids = Some [''abc''], statuses = None\<rparr>\<rparr> = Inl MalformedNumber \<and>
   postStateValidatorBalances_parseReq
     \<lparr>params = \<lparr>state_id = SidStr ''0xZZ''\<rparr>, query = (), body = Some [''42'']\<rparr> =
     Inr (SidStr ''0xZZ'', Some [VidNum 42]) \<and>
   postStateValidatorBalances_parseReq
     \<lparr>params = \<lparr>state_id = SidStr ''0xZZ''\<rparr>, query = (), body = Some [''abc'']\<rparr> =
     Inl MalformedNumber \<and>
   postStateValidatorBalances_parseReq
     \<lparr>params = \<lparr>state_id = SidStr ''head''\<rparr>, query = (), body = Some [''abc'']\<rparr> =
     Inl MalformedNumber"
proof -
  have a: "postStateValidators_parseReq
     \<lparr>params = \<lparr>state_id = SidStr ''0xZZ''\<rparr>, query = (),
      body = \<lparr>ids = Some [''42''], statuses = None\<rparr>\<rparr> =
     Inr (SidStr ''0xZZ'', Some \<lparr>id_filter = Some [VidNum 42], status_filter = None\<rparr>)"
    by (simp add: postStateValidators_parseReq_def parseReq_id_42)
  have b: "postStateValidators_parseReq
     \<lparr>params = \<lparr>state_id = SidStr ''0xZZ''\<rparr>, query = (),
      body = \<lparr>ids = Some [''abc''], statuses = None\<rparr>\<rparr> = Inl MalformedNumber"
    by (simp add: postStateValidators_parseReq_def parseReq_id_abc)
  have c: "postStateValidatorBalances_parseReq
     \<lparr>params = \<lparr>state_id = SidStr ''0xZZ''\<rparr>, query = (), body = Some [''42'']\<rparr> =
     Inr (SidStr ''0xZZ'', Some [VidNum 42])"
    by (simp add: postStateValidatorBalances_parseReq_def parseReq_id_42)
  have d: "postStateValidatorBalances_parseReq
     \<lparr>params = \<lparr>state_id = SidStr ''0xZZ''\<rparr>, query = (), body = Some [''abc'']\<rparr> =
     Inl MalformedNumber"
    by (simp add: postStateValidatorBalances_parseReq_def parseReq_id_abc)
  from a b c d
    parseReq_state_id_verbatim
      [where ?r8.0 = "\<lparr>params = \<lparr>state_id = SidStr ''0xZZ''\<rparr>, query = (),
          body = \<lparr>ids = Some [''abc''], statuses = None\<rparr>\<rparr>"
        and e = MalformedNumber and p = "\<lparr>state_id = SidStr ''head''\<rparr>"
        and ?r9.0 = "\<lparr>params = \<lparr>state_id = SidStr ''0xZZ''\<rparr>, query = (),
          body = Some [''abc'']\<rparr>"
        and e' = MalformedNumber]
    parseReq_state_id_verbatim
      [where ?r8.0 = "\<lparr>params = \<lparr>state_id = SidStr ''0xZZ''\<rparr>, query = (),
          body = \<lparr>ids = Some [''42''], statuses = None\<rparr>\<rparr>"
        and sid = "SidStr ''0xZZ''"
        and filters = "Some \<lparr>id_filter = Some [VidNum 42], status_filter = None\<rparr>"
        and ?r9.0 = "\<lparr>params = \<lparr>state_id = SidStr ''0xZZ''\<rparr>, query = (),
          body = Some [''42'']\<rparr>"
        and sid' = "SidStr ''0xZZ''" and vids = "Some [VidNum 42]"]
  show ?thesis
    by simp
qed

lemma map_throwing_parseReq_id:
  "map_throwing parseReq_id xs = Inr ys \<longleftrightarrow>
     list_all2 (\<lambda>x y. if startsWith x ''0x'' then y = VidStr x
                      else \<exists>n. fromU64Str x = Inr n \<and> y = VidNum n) xs ys"
  by (simp only: map_throwing_Inr parseReq_id_Inr)

lemma ValidatorFilters_eq:
  "f = \<lparr>id_filter = a, status_filter = b\<rparr> \<longleftrightarrow> id_filter f = a \<and> status_filter f = b"
  by (cases f) auto

text \<open>
  Claim C7. The POST serializers classify a \<^verbatim>\<open>ValidatorId\<close> literal by the \<^verbatim>\<open>0x\<close> prefix alone.
  \<^verbatim>\<open>postStateValidators\<close> and \<^verbatim>\<open>postStateValidatorBalances\<close> parse an id list to exactly the list
  that has, element by element, the same string for an element with the prefix and, for an
  element without it, the number that \<open>fromU64Str\<close> reads from it; they return whenever
  \<open>fromU64Str\<close> reads every element without the prefix. So \<^verbatim>\<open>"42"\<close> is the index \<open>42\<close>, and
  \<^verbatim>\<open>0xabc\<close> followed by any string \<open>rest\<close> is kept as it is.
\<close>

theorem validator_ids_classified_by_prefix:
  "(postStateValidators_parseReq r = Inr (sid, filters) \<longleftrightarrow>
      sid = state_id (params r) \<and>
      (\<exists>f. filters = Some f \<and> status_filter f = statuses (body r) \<and>
        (case ids (body r) of
           None \<Rightarrow> id_filter f = None
         | Some xs \<Rightarrow>
             (\<exists>ys. id_filter f = Some ys \<and>
               list_all2 (\<lambda>x y. if startsWith x ''0x'' then y = VidStr x
                                else \<exists>n. fromU64Str x = Inr n \<and> y = VidNum n) xs ys)))) \<and>
   (postStateValidatorBalances_parseReq r' = Inr (sid', vids) \<longleftrightarrow>
      sid' = state_id (params r') \<and>
      (case body r' of
         None \<Rightarrow> vids = None
       | Some xs \<Rightarrow>
           (\<exists>ys. vids = Some ys \<and>
             list_all2 (\<lambda>x y. if startsWith x ''0x'' then y = VidStr x
                              else \<exists>n. fromU64Str x = Inr n \<and> y = VidNum n) xs ys))) \<and>
   parseReq_id ''42'' = Inr (VidNum 42) \<and>
   parseReq_id (''0xabc'' @ rest) = Inr (VidStr (''0xabc'' @ rest))"
proof -
  have "postStateValidators_parseReq r = Inr (sid, filters) \<longleftrightarrow>
      sid = state_id (params r) \<and>
      (\<exists>f. filters = Some f \<and> status_filter f = statuses (body r) \<and>
        (case ids (body r) of
           None \<Rightarrow> id_filter f = None
         | Some xs \<Rightarrow>
             (\<exists>ys. id_filter f = Some ys \<and>
               list_all2 (\<lambda>x y. if startsWith x ''0x'' then y = VidStr x
                                else \<exists>n. fromU64Str x = Inr n \<and> y = VidNum n) xs ys)))"
  proof (cases "ids (body r)")
    case None
    then show ?thesis
      by (auto simp: postStateValidators_parseReq_def ValidatorFilters_eq)
  next
    case (Some xs)
    show ?thesis
      unfolding map_throwing_parseReq_id [symmetric]
      by (cases "map_throwing parseReq_id xs")
        (auto simp: postStateValidators_parseReq_def Some ValidatorFilters_eq)
  qed
  moreover have "postStateValidatorBalances_parseReq r' = Inr (sid', vids) \<longleftrightarrow>
      sid' = state_id (params r') \<and>
      (case body r' of
         None \<Rightarrow> vids = None
       | Some xs \<Rightarrow>
           (\<exists>ys. vids = Some ys \<and>
             list_all2 (\<lambda>x y. if startsWith x ''0x'' then y = VidStr x
                              else \<exists>n. fromU64Str x = Inr n \<and> y = VidNum n) xs ys))"
  proof (cases "body r'")
    case None
    then show ?thesis
      by (auto simp: postStateValidatorBalances_parseReq_def)
  next
    case (Some xs)
    show ?thesis
      unfolding map_throwing_parseReq_id [symmetric]
      by (cases "map_throwing parseReq_id xs")
        (auto simp: postStateValidatorBalances_parseReq_def Some)
  qed
  moreover have "parseReq_id (''0xabc'' @ rest) = Inr (VidStr (''0xabc'' @ rest))"
    by (simp add: parseReq_id_def startsWith_def)
  ultimately show ?thesis
    using parseReq_id_42 by blast
qed

text \<open>Both POST serializers on the id list \<^verbatim>\<open>["42", "0xabc"]\<close>.\<close>

theorem validator_ids_classified_by_prefix_witness:
  "postStateValidators_parseReq
     \<lparr>params = \<lparr>state_id = SidStr ''head''\<rparr>,
      query = (),
      body = \<lparr>ids = Some [''42'', ''0xabc''], statuses = None\<rparr>\<rparr> =
     Inr (SidStr ''head'',
          Some \<lparr>id_filter = Some [VidNum 42, VidStr ''0xabc''], status_filter = None\<rparr>) \<and>
   postStateValidatorBalances_parseReq
     \<lparr>params = \<lparr>state_id = SidStr ''head''\<rparr>, query = (), body = Some [''42'', ''0xabc'']\<rparr> =
     Inr (SidStr ''head'', Some [VidNum 42, VidStr ''0xabc''])"
proof -
  have "list_all2 (\<lambda>x y. if startsWith x ''0x'' then y = VidStr x
                    else \<exists>n. fromU64Str x = Inr n \<and> y = VidNum n)
     [''42'', ''0xabc''] [VidNum 42, VidStr ''0xabc'']"
    by (simp add: startsWith_def fromU64Str_42)
  then show ?thesis
    using validator_ids_classified_by_prefix
      [of "\<lparr>params = \<lparr>state_id = SidStr ''head''\<rparr>, query = (),
           body = \<lparr>ids = Some [''42'', ''0xabc''], statuses = None\<rparr>\<rparr>"
        "SidStr ''head''"
        "Some \<lparr>id_filter = Some [VidNum 42, VidStr ''0xabc''], status_filter = None\<rparr>"
        "\<lparr>params = \<lparr>state_id = SidStr ''head''\<rparr>, query = (), body = Some [''42'', ''0xabc'']\<rparr>"
        "SidStr ''head''" "Some [VidNum 42, VidStr ''0xabc'']"]
    by simp
qed

section \<open>The three tables\<close>

text \<open>
  Claim C9. \<^verbatim>\<open>routesData\<close>, the request serializers and the return types each have exactly the
  eleven operations of \<^verbatim>\<open>Api\<close> as their keys, once each; every route's method is \<^verbatim>\<open>GET\<close> or
  \<^verbatim>\<open>POST\<close>; and no two routes have the same method and URL template.
\<close>

theorem tables_total_and_routes_distinct:
  "length Api = 11 \<and> distinct Api \<and>
   distinct (map fst routesData) \<and> set (map fst routesData) = set Api \<and>
   distinct (map fst getReqSerializers) \<and> set (map fst getReqSerializers) = set Api \<and>
   distinct (map fst getReturnTypes) \<and> set (map fst getReturnTypes) = set Api \<and>
   set (map (\<lambda>(name, route). method route) routesData) \<subseteq> {''GET'', ''POST''} \<and>
   distinct (map (\<lambda>(name, route). (method route, url route)) routesData)"
proof -
  have "length Api = 11" and "distinct Api"
    by (simp_all add: Api_def)
  moreover have "distinct (map fst routesData)"
    by (simp add: routesData_def)
  moreover have "set (map fst routesData) = set Api"
    by (simp add: routesData_def Api_def insert_commute)
  moreover have "distinct (map fst getReqSerializers)"
    by (simp add: getReqSerializers_def)
  moreover have "set (map fst getReqSerializers) = set Api"
    by (simp add: getReqSerializers_def Api_def insert_commute)
  moreover have "distinct (map fst getReturnTypes)"
    by (simp add: getReturnTypes_def)
  moreover have "set (map fst getReturnTypes) = set Api"
    by (simp add: getReturnTypes_def Api_def insert_commute)
  moreover have "set (map (\<lambda>(name, route). method route) routesData) \<subseteq> {''GET'', ''POST''}"
    by (simp add: routesData_def)
  moreover have "distinct (map (\<lambda>(name, route). (method route, url route)) routesData)"
    by (simp add: routesData_def)
  ultimately show ?thesis
    by simp
qed

section \<open>The response envelope round-trips\<close>

lemma codec_of_payload_schema:
  "codec_of payload t =
     (case payload_schema t of
        None \<Rightarrow> None
      | Some T \<Rightarrow> Some (WithFinalized_codec (ContainerDataExecutionOptimistic_codec (payload T))))"
  by (induction payload t rule: codec_of.induct) simp_all

lemma envelope_codec_roundtrip:
  "decodeJSON dataType (encodeJSON dataType v) = Inr v \<Longrightarrow>
   decodeJSON (WithFinalized_codec (ContainerDataExecutionOptimistic_codec dataType))
     (encodeJSON (WithFinalized_codec (ContainerDataExecutionOptimistic_codec dataType))
        \<lparr>data = v, executionOptimistic = eo, finalized = fin\<rparr>) =
     Inr \<lparr>data = v, executionOptimistic = eo, finalized = fin\<rparr>"
  by (simp add: WithFinalized_codec_def ContainerDataExecutionOptimistic_codec_def)

lemma envelope_codec_defaults:
  "decodeJSON dataType j = Inr v \<Longrightarrow>
   decodeJSON (WithFinalized_codec (ContainerDataExecutionOptimistic_codec dataType))
     \<lparr>data_json = j, execution_optimistic = eo, finalized_json = fin\<rparr> =
     Inr \<lparr>data = v,
          executionOptimistic = (case eo of None \<Rightarrow> False | Some b \<Rightarrow> b),
          finalized = (case fin of None \<Rightarrow> False | Some b \<Rightarrow> b)\<rparr>"
  by (simp add: WithFinalized_codec_def ContainerDataExecutionOptimistic_codec_def)

text \<open>
  Claim C5. The envelope is applied to the payload schema of every operation: each of the
  eleven operations of \<^verbatim>\<open>Api\<close> has a return type in the table, that return type is
  \<^verbatim>\<open>WithFinalized(ContainerDataExecutionOptimistic(T))\<close> for the payload type \<^verbatim>\<open>T\<close> listed
  below, and it is the envelope codec around the codec of \<^verbatim>\<open>T\<close>. Whenever the return type \<open>t\<close> of
  an operation \<open>op\<close> is the codec \<open>E\<close> around the payload type \<open>T\<close>, and the codec of \<open>T\<close>
  round-trips the payload \<open>v\<close>, \<open>E\<close> round-trips the envelope of \<open>v\<close> with its two flags, so
  unwrapping what was wrapped gives \<open>v\<close> back; and when \<^verbatim>\<open>execution_optimistic\<close> or \<^verbatim>\<open>finalized\<close>
  is absent from the JSON that \<open>E\<close> decodes, the decoded flag is \<open>False\<close>.
\<close>

theorem envelope_roundtrip:
  "list_all
     (\<lambda>op. case map_of getReturnTypes op of
             None \<Rightarrow> False
           | Some t \<Rightarrow>
               (case payload_schema t of
                  None \<Rightarrow> False
                | Some T \<Rightarrow>
                    codec_of payload t =
                      Some (WithFinalized_codec
                             (ContainerDataExecutionOptimistic_codec (payload T)))))
     Api \<and>
   map (\<lambda>(op, t). (op, payload_schema t)) getReturnTypes =
     [(''getStateRoot'', Some RootContainer),
      (''getStateFork'', Some (ssz ''phase0.Fork'')),
      (''getStateRandao'', Some RandaoContainer),
      (''getStateFinalityCheckpoints'', Some FinalityCheckpoints),
      (''getStateValidators'', Some (ArrayOf ValidatorResponse)),
      (''postStateValidators'', Some (ArrayOf ValidatorResponse)),
      (''getStateValidator'', Some ValidatorResponse),
      (''getStateValidatorBalances'', Some (ArrayOf ValidatorBalance)),
      (''postStateValidatorBalances'', Some (ArrayOf ValidatorBalance)),
      (''getEpochCommittees'', Some (ArrayOf EpochCommitteeResponse)),
      (''getEpochSyncCommittees'', Some EpochSyncCommitteesResponse)] \<and>
   (map_of getReturnTypes op = Some t \<and> codec_of payload t = Some E \<and>
    payload_schema t = Some T \<longrightarrow>
      (decodeJSON (payload T) (encodeJSON (payload T) v) = Inr v \<longrightarrow>
         decodeJSON E (encodeJSON E \<lparr>data = v, executionOptimistic = eo, finalized = fin\<rparr>) =
           Inr \<lparr>data = v, executionOptimistic = eo, finalized = fin\<rparr>) \<and>
      (decodeJSON (payload T) j = Inr v' \<longrightarrow>
         decodeJSON E \<lparr>data_json = j, execution_optimistic = None, finalized_json = None\<rparr> =
           Inr \<lparr>data = v', executionOptimistic = False, finalized = False\<rparr> \<and>
         decodeJSON E \<lparr>data_json = j, execution_optimistic = Some eo', finalized_json = None\<rparr> =
           Inr \<lparr>data = v', executionOptimistic = eo', finalized = False\<rparr> \<and>
         decodeJSON E \<lparr>data_json = j, execution_optimistic = None, finalized_json = Some fin'\<rparr> =
           Inr \<lparr>data = v', executionOptimistic = False, finalized = fin'\<rparr>))"
proof -
  have total: "list_all
     (\<lambda>op. case map_of getReturnTypes op of
             None \<Rightarrow> False
           | Some t \<Rightarrow>
               (case payload_schema t of
                  None \<Rightarrow> False
                | Some T \<Rightarrow>
                    codec_of payload t =
                      Some (WithFinalized_codec
                             (ContainerDataExecutionOptimistic_codec (payload T)))))
     Api"
    by (simp add: Api_def getReturnTypes_def)
  have payloads: "map (\<lambda>(op, t). (op, payload_schema t)) getReturnTypes =
     [(''getStateRoot'', Some RootContainer),
      (''getStateFork'', Some (ssz ''phase0.Fork'')),
      (''getStateRandao'', Some RandaoContainer),
      (''getStateFinalityCheckpoints'', Some FinalityCheckpoints),
      (''getStateValidators'', Some (ArrayOf ValidatorResponse)),
      (''postStateValidators'', Some (ArrayOf ValidatorResponse)),
      (''getStateValidator'', Some ValidatorResponse),
      (''getStateValidatorBalances'', Some (ArrayOf ValidatorBalance)),
      (''postStateValidatorBalances'', Some (ArrayOf ValidatorBalance)),
      (''getEpochCommittees'', Some (ArrayOf EpochCommitteeResponse)),
      (''getEpochSyncCommittees'', Some EpochSyncCommitteesResponse)]"
    by (simp add: getReturnTypes_def)
  have codec: "codec_of payload t = Some E \<and> payload_schema t = Some T \<longrightarrow>
      E = WithFinalized_codec (ContainerDataExecutionOptimistic_codec (payload T))"
    by (auto simp: codec_of_payload_schema)
  show ?thesis
    using total payloads codec
      envelope_codec_roundtrip [of "payload T" v eo fin]
      envelope_codec_defaults [of "payload T" j v' None None]
      envelope_codec_defaults [of "payload T" j v' "Some eo'" None]
      envelope_codec_defaults [of "payload T" j v' None "Some fin'"]
    by auto
qed

text \<open>
  The return type of \<^verbatim>\<open>getStateValidatorBalances\<close>, with the codec of 64-bit integers in the
  place of every payload codec: the envelope around \<open>32000000000\<close>, and the JSON \<^verbatim>\<open>{data: "42"}\<close>
  with both flags absent.
\<close>

theorem envelope_roundtrip_witness:
  "map_of getReturnTypes ''getStateValidatorBalances'' =
     Some (WithFinalized (ContainerDataExecutionOptimistic (ArrayOf ValidatorBalance))) \<and>
   codec_of (\<lambda>T. U64_codec)
     (WithFinalized (ContainerDataExecutionOptimistic (ArrayOf ValidatorBalance))) =
     Some (WithFinalized_codec (ContainerDataExecutionOptimistic_codec U64_codec)) \<and>
   decodeJSON U64_codec (encodeJSON U64_codec 32000000000) = Inr 32000000000 \<and>
   decodeJSON (WithFinalized_codec (ContainerDataExecutionOptimistic_codec U64_codec))
     (encodeJSON (WithFinalized_codec (ContainerDataExecutionOptimistic_codec U64_codec))
        \<lparr>data = 32000000000, executionOptimistic = True, finalized = False\<rparr>) =
     Inr \<lparr>data = 32000000000, executionOptimistic = True, finalized = False\<rparr> \<and>
   decodeJSON U64_codec ''42'' = Inr 42 \<and>
   decodeJSON (WithFinalized_codec (ContainerDataExecutionOptimistic_codec U64_codec))
     \<lparr>data_json = ''42'', execution_optimistic = None, finalized_json = None\<rparr> =
     Inr \<lparr>data = 42, executionOptimistic = False, finalized = False\<rparr>"
proof -
  have entry: "map_of getReturnTypes ''getStateValidatorBalances'' =
      Some (WithFinalized (ContainerDataExecutionOptimistic (ArrayOf ValidatorBalance)))"
    by (simp add: getReturnTypes_def)
  have a: "decodeJSON U64_codec (encodeJSON U64_codec 32000000000) = Inr 32000000000"
    by (simp add: U64_codec_def fromU64Str_toU64Str)
  have b: "decodeJSON U64_codec ''42'' = Inr 42"
    by (simp add: U64_codec_def fromU64Str_42)
  from entry a b
    envelope_roundtrip
      [where payload = "\<lambda>T. U64_codec" and op = "''getStateValidatorBalances''"
        and t = "WithFinalized (ContainerDataExecutionOptimistic (ArrayOf ValidatorBalance))"
        and E = "WithFinalized_codec (ContainerDataExecutionOptimistic_codec U64_codec)"
        and T = "ArrayOf ValidatorBalance" and v = 32000000000 and eo = True and fin = False
        and j = "''42''" and v' = 42]
  show ?thesis
    by simp
qed

end
